theory Spec2Isabelle
  imports Main "HOL-Library.Word" "HOL-Library.Sublist" "HOL-Library.Monad_Syntax"
begin

section \<open>JavaScript strings\<close>

text \<open>
  A JavaScript string is a sequence of UTF-16 code units, and \<open>length\<close>, \<open>slice\<close>,
  \<open>startsWith\<close>, \<open>trim\<close> and the regular expressions without the \<open>u\<close> flag all
  work on code units. A code unit is a 16-bit word; \<open>js\<close> turns an ASCII literal of
  the source into its code units.
\<close>

type_synonym jschar = "16 word"
type_synonym jsstring = "jschar list"

definition js :: "string \<Rightarrow> jsstring" where
  "js s = map (\<lambda>c. of_char c) s"

text \<open>
  \<open>String.prototype.trim\<close> removes the code units of WhiteSpace and LineTerminator
  (ECMA-262, TrimString): TAB, LF, VT, FF, CR, SP, NBSP, U+1680, U+2000..U+200A, U+2028,
  U+2029, U+202F, U+205F, U+3000 and U+FEFF.
\<close>

definition isLineTerminator :: "jschar \<Rightarrow> bool" where
  "isLineTerminator c \<longleftrightarrow> c = 0x0A \<or> c = 0x0D \<or> c = 0x2028 \<or> c = 0x2029"

definition isWhiteSpace :: "jschar \<Rightarrow> bool" where
  "isWhiteSpace c \<longleftrightarrow>
     c = 0x09 \<or> c = 0x0B \<or> c = 0x0C \<or> c = 0x20 \<or> c = 0xA0 \<or> c = 0x1680 \<or>
     (0x2000 \<le> c \<and> c \<le> 0x200A) \<or> c = 0x202F \<or> c = 0x205F \<or> c = 0x3000 \<or>
     c = 0xFEFF \<or> isLineTerminator c"

definition trimStart :: "jsstring \<Rightarrow> jsstring" where
  "trimStart s = dropWhile isWhiteSpace s"

definition trimEnd :: "jsstring \<Rightarrow> jsstring" where
  "trimEnd s = rev (dropWhile isWhiteSpace (rev s))"

definition trim :: "jsstring \<Rightarrow> jsstring" where
  "trim s = trimEnd (trimStart s)"

definition startsWith :: "jsstring \<Rightarrow> jsstring \<Rightarrow> bool" where
  "startsWith s p \<longleftrightarrow> take (length p) s = p"

definition endsWith :: "jsstring \<Rightarrow> jsstring \<Rightarrow> bool" where
  "endsWith s p \<longleftrightarrow> length p \<le> length s \<and> drop (length s - length p) s = p"

text \<open>\<open>s.slice(n)\<close> for \<open>n \<ge> 0\<close>, and \<open>s.slice(0, -n)\<close>: both clamp at the ends.\<close>

definition sliceFrom :: "nat \<Rightarrow> jsstring \<Rightarrow> jsstring" where
  "sliceFrom n s = drop n s"

definition sliceDropLast :: "nat \<Rightarrow> jsstring \<Rightarrow> jsstring" where
  "sliceDropLast n s = take (length s - n) s"

definition includesStr :: "jsstring \<Rightarrow> jsstring \<Rightarrow> bool" where
  "includesStr s p \<longleftrightarrow> sublist p s"

section \<open>The image normalizer (functions/src/index.ts, normalizeBase64)\<close>

text \<open>
  The regular expression \<open>/^data:(.+?);base64,(.+)$/i\<close>, as the backtracking matcher
  of ECMA-262 runs it on a whole string.

  With the \<open>i\<close> flag two code units match when their canonical forms are equal. The
  pattern's own characters are ASCII, and Canonicalize never maps a code unit of 128 or
  more to one below 128, so against such a pattern the canonical form is the ASCII upper
  case of a letter and the code unit itself otherwise.
\<close>

definition canonicalize :: "jschar \<Rightarrow> jschar" where
  "canonicalize c = (if 0x61 \<le> c \<and> c \<le> 0x7A then c - 0x20 else c)"

text \<open>A literal of the pattern at the front of the input; the rest of the input.\<close>

definition matchLiteral :: "jsstring \<Rightarrow> jsstring \<Rightarrow> jsstring option" where
  "matchLiteral p s =
     (if length p \<le> length s \<and> map canonicalize (take (length p) s) = map canonicalize p
      then Some (drop (length p) s) else None)"

text \<open>
  \<open>(.+)$\<close>: the dot takes any code unit but a line terminator, and without the \<open>m\<close>
  flag \<open>$\<close> holds at the end of the input only, so the group is the whole rest.
\<close>

definition matchPayload :: "jsstring \<Rightarrow> jsstring option" where
  "matchPayload s =
     (if s \<noteq> [] \<and> list_all (\<lambda>c. \<not> isLineTerminator c) s then Some s else None)"

definition matchTail :: "jsstring \<Rightarrow> jsstring option" where
  "matchTail s = Option.bind (matchLiteral (js '';base64,'') s) matchPayload"

text \<open>
  \<open>(.+?)\<close> followed by the tail: the lazy group takes one code unit, tries the tail,
  and takes one more each time the tail fails. \<open>acc\<close> is what the group holds so far.
\<close>

fun matchMime :: "jsstring \<Rightarrow> jsstring \<Rightarrow> (jsstring \<times> jsstring) option" where
  "matchMime acc [] = None"
| "matchMime acc (c # cs) =
     (if isLineTerminator c then None
      else (case matchTail cs of
              Some payload \<Rightarrow> Some (acc @ [c], payload)
            | None \<Rightarrow> matchMime (acc @ [c]) cs))"

definition dataUrlMatch :: "jsstring \<Rightarrow> (jsstring \<times> jsstring) option" where
  "dataUrlMatch s = Option.bind (matchLiteral (js ''data:'') s) (matchMime [])"

record encodedImage =
  mimeType :: jsstring
  base64 :: jsstring

definition normalizeBase64 :: "jsstring \<Rightarrow> encodedImage" where
  "normalizeBase64 input =
     (let trimmed = trim input in
      case dataUrlMatch trimmed of
        Some (mime, payload) \<Rightarrow> \<lparr>mimeType = mime, base64 = payload\<rparr>
      | None \<Rightarrow> \<lparr>mimeType = js ''image/jpeg'', base64 = trimmed\<rparr>)"

text \<open>
  The data-URL pattern in words, to compare the matcher with: a string is
  \<open>data:<mime>;base64,<payload>\<close> when it is the scheme, a non-empty mime, the marker
  and a non-empty payload, scheme and marker in any letter case, no line terminator in
  mime or payload, and the mime is the shortest one that leaves such a rest.
\<close>

definition sameLetters :: "jsstring \<Rightarrow> jsstring \<Rightarrow> bool" where
  "sameLetters s p \<longleftrightarrow> map canonicalize s = map canonicalize p"

definition markerThenPayload :: "jsstring \<Rightarrow> bool" where
  "markerThenPayload r \<longleftrightarrow>
     (\<exists>sep p. r = sep @ p \<and> sameLetters sep (js '';base64,'') \<and> p \<noteq> [] \<and>
        list_all (\<lambda>c. \<not> isLineTerminator c) p)"

definition lazyCapture :: "jsstring \<Rightarrow> jsstring \<Rightarrow> jsstring \<Rightarrow> bool" where
  "lazyCapture r mime payload \<longleftrightarrow>
     (\<exists>sep. r = mime @ sep @ payload \<and> sameLetters sep (js '';base64,'') \<and>
        mime \<noteq> [] \<and> payload \<noteq> [] \<and>
        list_all (\<lambda>c. \<not> isLineTerminator c) mime \<and>
        list_all (\<lambda>c. \<not> isLineTerminator c) payload \<and>
        \<not> (\<exists>k. 0 < k \<and> k < length mime \<and> markerThenPayload (drop k mime @ sep @ payload)))"

definition isDataUrl :: "jsstring \<Rightarrow> jsstring \<Rightarrow> jsstring \<Rightarrow> bool" where
  "isDataUrl s mime payload \<longleftrightarrow>
     (\<exists>scheme r. s = scheme @ r \<and> sameLetters scheme (js ''data:'') \<and>
        lazyCapture r mime payload)"

section \<open>Fence stripping (functions/src/index.ts, skinAnalysis, lines 229-239)\<close>

definition stripFences :: "jsstring \<Rightarrow> jsstring" where
  "stripFences responseText =
     (let c0 = trim responseText;
          c1 = (if startsWith c0 (js ''```json'') then sliceFrom 7 c0 else c0);
          c2 = (if startsWith c1 (js ''```'') then sliceFrom 3 c1 else c1);
          c3 = (if endsWith c2 (js ''```'') then sliceDropLast 3 c2 else c2)
      in trim c3)"

text \<open>
  How many fence markers an input has, for the idempotence of the stripping. The trimmed
  input is read as a leading marker, a body and a trailing marker: the leading marker is
  \<open>```json\<close> or \<open>```\<close> at its front, if there is one; the trailing marker is \<open>```\<close> at the
  end of what follows the leading marker, if there is one; the body is what lies between
  them, trimmed, and it may be blank. There is a second leading marker when the body
  starts with \<open>```\<close> again, and a second trailing marker when the body ends with \<open>```\<close>
  again.
\<close>

definition afterLeadingFence :: "jsstring \<Rightarrow> jsstring" where
  "afterLeadingFence t =
     (if startsWith t (js ''```json'') then sliceFrom 7 t
      else if startsWith t (js ''```'') then sliceFrom 3 t
      else t)"

definition beforeTrailingFence :: "jsstring \<Rightarrow> jsstring" where
  "beforeTrailingFence r = (if endsWith r (js ''```'') then sliceDropLast 3 r else r)"

definition fenceBody :: "jsstring \<Rightarrow> jsstring" where
  "fenceBody s = trim (beforeTrailingFence (afterLeadingFence (trim s)))"

definition atMostOneLeadingFence :: "jsstring \<Rightarrow> bool" where
  "atMostOneLeadingFence s \<longleftrightarrow> \<not> startsWith (fenceBody s) (js ''```'')"

definition atMostOneTrailingFence :: "jsstring \<Rightarrow> bool" where
  "atMostOneTrailingFence s \<longleftrightarrow> \<not> endsWith (fenceBody s) (js ''```'')"


text \<open>A text wrapped in a fence: \<open>```json\<close>, a line feed, the text, a line feed, \<open>```\<close>.\<close>

definition fenceWrap :: "jsstring \<Rightarrow> jsstring" where
  "fenceWrap s = js ''```json'' @ js ''\<newline>'' @ s @ js ''\<newline>'' @ js ''```''"

section \<open>JavaScript values\<close>

text \<open>
  The values a JSON body can hold, and \<open>undefined\<close> for what is absent. The code looks at
  a number in two ways only, its truthiness and its conversion to a string, and both are
  functions of the ToString rendering (\<open>0\<close> and \<open>-0\<close> render as \<open>0\<close>, NaN as \<open>NaN\<close>, and
  no other number is falsy), so a number is kept as that rendering. An object is the
  list of its own properties in insertion order.
\<close>

datatype jsvalue =
    JUndefined
  | JNull
  | JBool bool
  | JNum jsstring
  | JStr jsstring
  | JArr "jsvalue list"
  | JObj "(jsstring \<times> jsvalue) list"

fun truthy :: "jsvalue \<Rightarrow> bool" where
  "truthy JUndefined = False"
| "truthy JNull = False"
| "truthy (JBool b) = b"
| "truthy (JNum r) = (r \<noteq> js ''0'' \<and> r \<noteq> js ''NaN'')"
| "truthy (JStr s) = (s \<noteq> [])"
| "truthy (JArr xs) = True"
| "truthy (JObj kvs) = True"

fun nullish :: "jsvalue \<Rightarrow> bool" where
  "nullish JUndefined = True"
| "nullish JNull = True"
| "nullish v = False"

text \<open>
  \<open>v.k\<close> for a value that is neither \<open>undefined\<close> nor \<open>null\<close> and a key that no
  prototype defines (every key the code reads is one): the own property, or \<open>undefined\<close>.
\<close>

fun getProp :: "jsvalue \<Rightarrow> jsstring \<Rightarrow> jsvalue" where
  "getProp (JObj kvs) k = (case map_of kvs k of Some v \<Rightarrow> v | None \<Rightarrow> JUndefined)"
| "getProp v k = JUndefined"

text \<open>\<open>a || b\<close> and \<open>a ?? b\<close> on values.\<close>

definition orElse :: "jsvalue \<Rightarrow> jsvalue \<Rightarrow> jsvalue" where
  "orElse a b = (if truthy a then a else b)"

definition coalesce :: "jsvalue \<Rightarrow> jsvalue \<Rightarrow> jsvalue" where
  "coalesce a b = (if nullish a then b else a)"

fun joinParts :: "jsstring \<Rightarrow> jsstring list \<Rightarrow> jsstring" where
  "joinParts sep [] = []"
| "joinParts sep [x] = x"
| "joinParts sep (x # y # ys) = x @ sep @ joinParts sep (y # ys)"

text \<open>
  ToString, as a template literal applies it; \<open>None\<close> is the TypeError of an object that
  cannot be converted. An array converts by \<open>join(",")\<close>, where \<open>undefined\<close> and \<open>null\<close>
  elements give the empty string. A plain object gives \<open>[object Object]\<close> through
  \<open>Object.prototype.toString\<close>, unless it has an own property \<open>toString\<close>: a JSON value
  is not callable, \<open>valueOf\<close> returns the object itself, and the conversion throws.
\<close>

fun toStr :: "jsvalue \<Rightarrow> jsstring option" where
  "toStr JUndefined = Some (js ''undefined'')"
| "toStr JNull = Some (js ''null'')"
| "toStr (JBool b) = Some (if b then js ''true'' else js ''false'')"
| "toStr (JNum r) = Some r"
| "toStr (JStr s) = Some s"
| "toStr (JArr xs) =
     map_option (joinParts (js '',''))
       (those (map (\<lambda>x. if nullish x then Some [] else toStr x) xs))"
| "toStr (JObj kvs) =
     (if map_of kvs (js ''toString'') = None then Some (js ''[object Object]'') else None)"

text \<open>\<open>xs.join(sep)\<close> on the elements of an array.\<close>

definition arrayJoin :: "jsstring \<Rightarrow> jsvalue list \<Rightarrow> jsstring option" where
  "arrayJoin sep xs =
     map_option (joinParts sep) (those (map (\<lambda>x. if nullish x then Some [] else toStr x) xs))"

section \<open>JSON.parse\<close>

text \<open>
  \<open>JSON.parse\<close> is the platform's, modelled from ECMA-404 and ECMA-262: the text is cut
  into tokens, with JSON whitespace (TAB, LF, CR, SP) allowed between any two, and the
  tokens are read by the grammar of values. The conversion of a numeric literal to a
  double is arithmetic of the platform; it is the parameter \<open>numberOf\<close>, from the literal
  to the rendering of its number.
\<close>

datatype token =
    LBrace | RBrace | LBracket | RBracket | Colon | Comma
  | StringTok jsstring | NumberTok jsstring | TrueTok | FalseTok | NullTok

definition isJsonWs :: "jschar \<Rightarrow> bool" where
  "isJsonWs c \<longleftrightarrow> c = 0x09 \<or> c = 0x0A \<or> c = 0x0D \<or> c = 0x20"

definition isDigit :: "jschar \<Rightarrow> bool" where
  "isDigit c \<longleftrightarrow> 0x30 \<le> c \<and> c \<le> 0x39"

definition isHexDigit :: "jschar \<Rightarrow> bool" where
  "isHexDigit c \<longleftrightarrow> isDigit c \<or> (0x41 \<le> c \<and> c \<le> 0x46) \<or> (0x61 \<le> c \<and> c \<le> 0x66)"

definition hexValue :: "jschar \<Rightarrow> jschar" where
  "hexValue c = (if isDigit c then c - 0x30 else if c \<le> 0x46 then c - 0x37 else c - 0x57)"

definition hex4 :: "jsstring \<Rightarrow> jschar" where
  "hex4 ds = foldl (\<lambda>a d. a * 16 + hexValue d) 0 ds"

text \<open>What follows a backslash inside a string: the code unit it stands for, and the rest.\<close>

definition lexEscape :: "jsstring \<Rightarrow> (jschar \<times> jsstring) option" where
  "lexEscape s =
     (case s of
        [] \<Rightarrow> None
      | e # r \<Rightarrow>
          if e = 0x22 \<or> e = 0x5C \<or> e = 0x2F then Some (e, r)
          else if e = 0x62 then Some (0x08, r)
          else if e = 0x66 then Some (0x0C, r)
          else if e = 0x6E then Some (0x0A, r)
          else if e = 0x72 then Some (0x0D, r)
          else if e = 0x74 then Some (0x09, r)
          else if e = 0x75 \<and> 4 \<le> length r \<and> list_all isHexDigit (take 4 r)
            then Some (hex4 (take 4 r), drop 4 r)
          else None)"

lemma lexEscape_shorter: "lexEscape s = Some (u, r) \<Longrightarrow> length r < length s"
  by (auto simp: lexEscape_def split: list.splits if_splits)

text \<open>A string after its opening quote: its code units, and the rest after the closing quote.\<close>

function lexString :: "jsstring \<Rightarrow> (jsstring \<times> jsstring) option" where
  "lexString [] = None"
| "lexString (c # cs) =
     (if c = 0x22 then Some ([], cs)
      else if c = 0x5C then
        (case lexEscape cs of
           None \<Rightarrow> None
         | Some (u, r) \<Rightarrow> map_option (\<lambda>(str, rest). (u # str, rest)) (lexString r))
      else if c < 0x20 then None
      else map_option (\<lambda>(str, rest). (c # str, rest)) (lexString cs))"
  by pat_completeness auto
termination
  by (relation "measure length") (auto dest: lexEscape_shorter)

text \<open>
  A number: an optional minus, an integer part without a leading zero, an optional
  fraction and an optional exponent, each as long as it can be.
\<close>

definition lexInt :: "jsstring \<Rightarrow> (jsstring \<times> jsstring) option" where
  "lexInt s =
     (case s of
        [] \<Rightarrow> None
      | c # r \<Rightarrow>
          if c = 0x30 then Some ([c], r)
          else if isDigit c then Some (c # takeWhile isDigit r, dropWhile isDigit r)
          else None)"

definition lexFrac :: "jsstring \<Rightarrow> (jsstring \<times> jsstring) option" where
  "lexFrac s =
     (case s of
        [] \<Rightarrow> Some ([], s)
      | c # r \<Rightarrow>
          if c = 0x2E then
            (if takeWhile isDigit r = [] then None
             else Some (c # takeWhile isDigit r, dropWhile isDigit r))
          else Some ([], s))"

definition lexSign :: "jsstring \<Rightarrow> jsstring \<times> jsstring" where
  "lexSign s =
     (case s of [] \<Rightarrow> ([], s) | c # r \<Rightarrow> if c = 0x2B \<or> c = 0x2D then ([c], r) else ([], s))"

definition lexExp :: "jsstring \<Rightarrow> (jsstring \<times> jsstring) option" where
  "lexExp s =
     (case s of
        [] \<Rightarrow> Some ([], s)
      | c # r \<Rightarrow>
          if c = 0x65 \<or> c = 0x45 then
            (let (sign, r') = lexSign r in
             if takeWhile isDigit r' = [] then None
             else Some (c # sign @ takeWhile isDigit r', dropWhile isDigit r'))
          else Some ([], s))"

definition lexMinus :: "jsstring \<Rightarrow> jsstring \<times> jsstring" where
  "lexMinus s = (case s of [] \<Rightarrow> ([], s) | c # r \<Rightarrow> if c = 0x2D then ([c], r) else ([], s))"

definition lexNumber :: "jsstring \<Rightarrow> (jsstring \<times> jsstring) option" where
  "lexNumber s =
     (let (minus, r0) = lexMinus s in
      case lexInt r0 of
        None \<Rightarrow> None
      | Some (i, r1) \<Rightarrow>
          (case lexFrac r1 of
             None \<Rightarrow> None
           | Some (f, r2) \<Rightarrow>
               (case lexExp r2 of
                  None \<Rightarrow> None
                | Some (e, r3) \<Rightarrow> Some (minus @ i @ f @ e, r3))))"

text \<open>The token at the front of a text that starts with no whitespace.\<close>

definition nextToken :: "jsstring \<Rightarrow> (token \<times> jsstring) option" where
  "nextToken s =
     (case s of
        [] \<Rightarrow> None
      | c # cs \<Rightarrow>
          if c = 0x7B then Some (LBrace, cs)
          else if c = 0x7D then Some (RBrace, cs)
          else if c = 0x5B then Some (LBracket, cs)
          else if c = 0x5D then Some (RBracket, cs)
          else if c = 0x3A then Some (Colon, cs)
          else if c = 0x2C then Some (Comma, cs)
          else if c = 0x22 then map_option (\<lambda>(str, rest). (StringTok str, rest)) (lexString cs)
          else if c = 0x2D \<or> isDigit c then
            map_option (\<lambda>(num, rest). (NumberTok num, rest)) (lexNumber s)
          else if startsWith s (js ''true'') then Some (TrueTok, drop 4 s)
          else if startsWith s (js ''false'') then Some (FalseTok, drop 5 s)
          else if startsWith s (js ''null'') then Some (NullTok, drop 4 s)
          else None)"

lemma lexString_shorter: "lexString s = Some (str, rest) \<Longrightarrow> length rest < length s"
proof (induction s arbitrary: str rule: lexString.induct)
  case 1
  then show ?case by simp
next
  case (2 c cs)
  show ?case
  proof (cases "c = 0x22")
    case True
    with "2.prems" show ?thesis by simp
  next
    case nq: False
    show ?thesis
    proof (cases "c = 0x5C")
      case True
      with nq "2.prems" obtain u r str' where
        e: "lexEscape cs = Some (u, r)" and l: "lexString r = Some (str', rest)"
        by (auto split: option.splits)
      from "2.IH"(1)[OF nq True e refl l]
      have "length rest < length r" .
      with lexEscape_shorter[OF e] show ?thesis by simp
    next
      case False
      with nq "2.prems" obtain str' where
        c: "\<not> c < 0x20" and l: "lexString cs = Some (str', rest)"
        by (auto split: if_splits)
      from "2.IH"(2)[OF nq False c l] show ?thesis by simp
    qed
  qed
qed

lemma lexNumber_shorter: "lexNumber s = Some (num, rest) \<Longrightarrow> length rest < length s"
proof -
  have d: "length (dropWhile isDigit r) \<le> length r" for r
    by (rule length_dropWhile_le)
  have s: "lexSign r = (sg, r') \<Longrightarrow> length r' \<le> length r" for r sg r'
    by (auto simp: lexSign_def split: list.splits if_splits)
  have i: "lexInt r = Some (x, r') \<Longrightarrow> length r' < length r" for r x r'
    using d by (auto simp: lexInt_def less_Suc_eq_le split: list.splits if_splits)
  have f: "lexFrac r = Some (x, r') \<Longrightarrow> length r' \<le> length r" for r x r'
    using d by (auto simp: lexFrac_def le_Suc_eq split: list.splits if_splits)
  have e: "lexExp r = Some (x, r') \<Longrightarrow> length r' \<le> length r" for r x r'
  proof -
    assume a: "lexExp r = Some (x, r')"
    show ?thesis
    proof (cases r)
      case Nil
      with a show ?thesis by (simp add: lexExp_def)
    next
      case (Cons c t)
      obtain sg t' where sg: "lexSign t = (sg, t')" by (cases "lexSign t")
      have "length (dropWhile isDigit t') \<le> length t" using d[of t'] s[OF sg] by simp
      with a Cons sg show ?thesis
        by (auto simp: lexExp_def split: if_splits)
    qed
  qed
  assume "lexNumber s = Some (num, rest)"
  then obtain m r0 x1 r1 x2 r2 x3 where
    "lexMinus s = (m, r0)"
    "lexInt r0 = Some (x1, r1)" "lexFrac r1 = Some (x2, r2)" "lexExp r2 = Some (x3, rest)"
    by (auto simp: lexNumber_def split: prod.splits option.splits)
  moreover from this have "length r0 \<le> length s"
    by (auto simp: lexMinus_def split: list.splits if_splits)
  ultimately show ?thesis using i[of r0 x1 r1] f[of r1 x2 r2] e[of r2 x3 rest] by simp
qed

lemma nextToken_shorter: "nextToken s = Some (t, rest) \<Longrightarrow> length rest < length s"
  by (auto simp: nextToken_def startsWith_def split: list.splits if_splits
      dest!: lexString_shorter lexNumber_shorter)

function lexJSON :: "jsstring \<Rightarrow> token list option" where
  "lexJSON s =
     (case dropWhile isJsonWs s of
        [] \<Rightarrow> Some []
      | c # cs \<Rightarrow>
          (case nextToken (c # cs) of
             None \<Rightarrow> None
           | Some (t, rest) \<Rightarrow> map_option ((#) t) (lexJSON rest)))"
  by pat_completeness auto
termination
proof (relation "measure length")
  show "wf (measure length)" by simp
next
  fix s :: jsstring and c cs x t rest
  assume "dropWhile isJsonWs s = c # cs" "nextToken (c # cs) = Some x" "(t, rest) = x"
  then have "length rest < length (dropWhile isJsonWs s)"
    using nextToken_shorter[of "c # cs" t rest] by simp
  also have "\<dots> \<le> length s" by (rule length_dropWhile_le)
  finally show "(rest, s) \<in> measure length" by simp
qed

text \<open>
  The grammar of values, read token by token. A frame is a container that is still
  open: an array with its elements so far, or an object with its members so far and the
  key whose value is being read. \<open>JSON.parse\<close> defines a property that occurs twice in
  place, with the later value.
\<close>

datatype frame =
    ArrayFrame "jsvalue list"
  | ObjectFrame "(jsstring \<times> jsvalue) list" jsstring

datatype pstate =
    ExpectValue "frame list"
  | ArrayOpen "frame list"
  | ObjectOpen "frame list"
  | ExpectKey "(jsstring \<times> jsvalue) list" "frame list"
  | ExpectColon "(jsstring \<times> jsvalue) list" jsstring "frame list"
  | AfterValue jsvalue "frame list"

fun setMember :: "(jsstring \<times> jsvalue) list \<Rightarrow> jsstring \<Rightarrow> jsvalue \<Rightarrow> (jsstring \<times> jsvalue) list" where
  "setMember [] k v = [(k, v)]"
| "setMember ((k', v') # ms) k v = (if k' = k then (k, v) # ms else (k', v') # setMember ms k v)"

fun beginValue :: "(jsstring \<Rightarrow> jsstring) \<Rightarrow> token \<Rightarrow> frame list \<Rightarrow> pstate option" where
  "beginValue numberOf (StringTok s) stack = Some (AfterValue (JStr s) stack)"
| "beginValue numberOf (NumberTok n) stack = Some (AfterValue (JNum (numberOf n)) stack)"
| "beginValue numberOf TrueTok stack = Some (AfterValue (JBool True) stack)"
| "beginValue numberOf FalseTok stack = Some (AfterValue (JBool False) stack)"
| "beginValue numberOf NullTok stack = Some (AfterValue JNull stack)"
| "beginValue numberOf LBracket stack = Some (ArrayOpen stack)"
| "beginValue numberOf LBrace stack = Some (ObjectOpen stack)"
| "beginValue numberOf t stack = None"

fun parseStep :: "(jsstring \<Rightarrow> jsstring) \<Rightarrow> pstate \<Rightarrow> token \<Rightarrow> pstate option" where
  "parseStep numberOf (ExpectValue stack) t = beginValue numberOf t stack"
| "parseStep numberOf (ArrayOpen stack) t =
     (if t = RBracket then Some (AfterValue (JArr []) stack)
      else beginValue numberOf t (ArrayFrame [] # stack))"
| "parseStep numberOf (ObjectOpen stack) t =
     (case t of
        RBrace \<Rightarrow> Some (AfterValue (JObj []) stack)
      | StringTok k \<Rightarrow> Some (ExpectColon [] k stack)
      | _ \<Rightarrow> None)"
| "parseStep numberOf (ExpectKey ms stack) t =
     (case t of StringTok k \<Rightarrow> Some (ExpectColon ms k stack) | _ \<Rightarrow> None)"
| "parseStep numberOf (ExpectColon ms k stack) t =
     (if t = Colon then Some (ExpectValue (ObjectFrame ms k # stack)) else None)"
| "parseStep numberOf (AfterValue v []) t = None"
| "parseStep numberOf (AfterValue v (ArrayFrame elems # stack)) t =
     (if t = Comma then Some (ExpectValue (ArrayFrame (elems @ [v]) # stack))
      else if t = RBracket then Some (AfterValue (JArr (elems @ [v])) stack)
      else None)"
| "parseStep numberOf (AfterValue v (ObjectFrame ms k # stack)) t =
     (if t = Comma then Some (ExpectKey (setMember ms k v) stack)
      else if t = RBrace then Some (AfterValue (JObj (setMember ms k v)) stack)
      else None)"

fun parseTokens :: "(jsstring \<Rightarrow> jsstring) \<Rightarrow> pstate \<Rightarrow> token list \<Rightarrow> jsvalue option" where
  "parseTokens numberOf st [] = (case st of AfterValue v [] \<Rightarrow> Some v | _ \<Rightarrow> None)"
| "parseTokens numberOf st (t # ts) =
     (case parseStep numberOf st t of
        None \<Rightarrow> None
      | Some st' \<Rightarrow> parseTokens numberOf st' ts)"

text \<open>\<open>JSON.parse(text)\<close>; \<open>None\<close> is the SyntaxError.\<close>

definition JSON_parse :: "(jsstring \<Rightarrow> jsstring) \<Rightarrow> jsstring \<Rightarrow> jsvalue option" where
  "JSON_parse numberOf text =
     (case lexJSON text of
        None \<Rightarrow> None
      | Some toks \<Rightarrow> parseTokens numberOf (ExpectValue []) toks)"

section \<open>The prompt builder (functions/src/index.ts, skinAnalysis, lines 124-202)\<close>

text \<open>The two system prompts, as the template literals of the source spell them.\<close>

definition systemPromptFr :: jsstring where
  \<open>systemPromptFr =
     js ''Tu es un dermatologue expert sp'' @ [0xE9] @ js ''cialis'' @ [0xE9] @
     js '' dans les soins des peaux riches en m'' @ [0xE9] @
     js ''lanine. Analyse le profil de peau fourni et g'' @ [0xE9] @ js ''n'' @ [0xE8] @
     js ''re des recommandations personnalis'' @ [0xE9] @
     js ''es de soins.\<newline>\<newline>IMPORTANT: R'' @ [0xE9] @
     js ''ponds UNIQUEMENT avec un objet JSON valide, sans texte suppl'' @ [0xE9] @
     js ''mentaire, sans backticks, sans "json" au d'' @ [0xE9] @ js ''but. Le format doit '' @
     [0xEA] @ js ''tre:\<newline>\<newline>{\<newline>'' @
     js ''  "skinType": "le type de peau",\<newline>'' @
     js ''  "concerns": ["liste", "des", "pr'' @ [0xE9] @
     js ''occupations"],\<newline>  "overallScore": 85,\<newline>  "summary": "R'' @ [0xE9] @
     js ''sum'' @ [0xE9] @ js '' personnalis'' @ [0xE9] @
     js '' de l'analyse",\<newline>  "recommendations": [\<newline>'' @
     js ''    {"title": "Titre", "description": "Description d'' @ [0xE9] @ js ''taill'' @ [0xE9] @
     js ''e", "priority": "high|medium|low"}\<newline>  ],\<newline>'' @
     js ''  "morningRoutine": [\<newline>'' @
     js ''    {"step": 1, "product": "Produit", "instructions": "Instructions", "timing": "Dur'' @
     [0xE9] @ js ''e"}\<newline>  ],\<newline>  "eveningRoutine": [\<newline>'' @
     js ''    {"step": 1, "product": "Produit", "instructions": "Instructions", "timing": "Dur'' @
     [0xE9] @ js ''e"}\<newline>  ],\<newline>  "ingredients": [\<newline>'' @
     js ''    {"name": "Ingr'' @ [0xE9] @ js ''dient", "benefit": "B'' @ [0xE9] @ js ''n'' @
     [0xE9] @ js ''fice", "safeForMelaninRich": true, "caution": "optionnel"}\<newline>'' @
     js ''  ]\<newline>}''\<close>

definition systemPromptEn :: jsstring where
  \<open>systemPromptEn =
     js ''You are an expert dermatologist specializing in melanin-rich skin care. Analyze the provided skin profile and generate personalized skincare recommendations.\<newline>'' @
     js ''\<newline>'' @
     js ''IMPORTANT: Respond ONLY with a valid JSON object, no additional text, no backticks, no "json" prefix. The format must be:\<newline>'' @
     js ''\<newline>{\<newline>  "skinType": "the skin type",\<newline>'' @
     js ''  "concerns": ["list", "of", "concerns"],\<newline>'' @
     js ''  "overallScore": 85,\<newline>'' @
     js ''  "summary": "Personalized analysis summary",\<newline>'' @
     js ''  "recommendations": [\<newline>'' @
     js ''    {"title": "Title", "description": "Detailed description", "priority": "high|medium|low"}\<newline>'' @
     js ''  ],\<newline>  "morningRoutine": [\<newline>'' @
     js ''    {"step": 1, "product": "Product", "instructions": "Instructions", "timing": "Duration"}\<newline>'' @
     js ''  ],\<newline>  "eveningRoutine": [\<newline>'' @
     js ''    {"step": 1, "product": "Product", "instructions": "Instructions", "timing": "Duration"}\<newline>'' @
     js ''  ],\<newline>  "ingredients": [\<newline>'' @
     js ''    {"name": "Ingredient", "benefit": "Benefit", "safeForMelaninRich": true, "caution": "optional"}\<newline>'' @
     js ''  ]\<newline>}''\<close>

definition systemPrompt :: "jsvalue \<Rightarrow> jsstring" where
  "systemPrompt language =
     (if language = JStr (js ''fr'') then systemPromptFr else systemPromptEn)"

text \<open>
  The user prompt is one template literal per language. Its fixed text is named here
  piece by piece: the opening, the label of each profile line, and the closing block
  that starts with the blank line after the photo line.
\<close>

definition openingEn :: jsstring where
  \<open>openingEn =
     js ''Analyze this skin profile and generate personalized recommendations:\<newline>'' @
     js ''\<newline>''\<close>

definition skinLabelEn :: jsstring where
  \<open>skinLabelEn =
     js ''Skin Type: ''\<close>

definition concernsLabelEn :: jsstring where
  \<open>concernsLabelEn =
     js ''Concerns: ''\<close>

definition ageLabelEn :: jsstring where
  \<open>ageLabelEn =
     js ''Age Range: ''\<close>

definition sunLabelEn :: jsstring where
  \<open>sunLabelEn =
     js ''Sun Exposure: ''\<close>

definition routineLabelEn :: jsstring where
  \<open>routineLabelEn =
     js ''Current Routine: ''\<close>

definition closingEn :: jsstring where
  \<open>closingEn =
     js ''\<newline>\<newline>Generate a complete analysis with:\<newline>'' @
     js ''- A skin health score (0-100)\<newline>'' @ js ''- A personalized summary\<newline>'' @
     js ''- 3-4 priority recommendations\<newline>'' @
     js ''- A morning routine (4-5 steps)\<newline>'' @
     js ''- An evening routine (4-5 steps)\<newline>'' @
     js ''- 5-6 recommended ingredients (with cautions for melanin-rich skin)''\<close>

definition openingFr :: jsstring where
  \<open>openingFr =
     js ''Analyse ce profil de peau et g'' @ [0xE9] @ js ''n'' @ [0xE8] @
     js ''re des recommandations personnalis'' @ [0xE9] @ js ''es:\<newline>\<newline>''\<close>

definition skinLabelFr :: jsstring where
  \<open>skinLabelFr =
     js ''Type de peau: ''\<close>

definition concernsLabelFr :: jsstring where
  \<open>concernsLabelFr =
     js ''Pr'' @ [0xE9] @ js ''occupations: ''\<close>

definition ageLabelFr :: jsstring where
  \<open>ageLabelFr =
     js ''Tranche d'' @ [0x27] @ [0xE2] @ js ''ge: ''\<close>

definition sunLabelFr :: jsstring where
  \<open>sunLabelFr =
     js ''Exposition au soleil: ''\<close>

definition routineLabelFr :: jsstring where
  \<open>routineLabelFr =
     js ''Routine actuelle: ''\<close>

definition closingFr :: jsstring where
  \<open>closingFr =
     js ''\<newline>\<newline>G'' @ [0xE9] @ js ''n'' @ [0xE8] @ js ''re une analyse compl'' @
     [0xE8] @ js ''te avec:\<newline>- Un score de sant'' @ [0xE9] @
     js '' de la peau (0-100)\<newline>- Un r'' @ [0xE9] @ js ''sum'' @ [0xE9] @
     js '' personnalis'' @ [0xE9] @ js ''\<newline>- 3-4 recommandations prioritaires\<newline>'' @
     js ''- Une routine matin (4-5 '' @ [0xE9] @ js ''tapes)\<newline>- Une routine soir (4-5 '' @
     [0xE9] @ js ''tapes)\<newline>- 5-6 ingr'' @ [0xE9] @ js ''dients recommand'' @ [0xE9] @
     js ''s (avec pr'' @ [0xE9] @ js ''cautions pour peaux riches en m'' @ [0xE9] @
     js ''lanine)''\<close>

definition notSpecifiedEn :: jsstring where
  "notSpecifiedEn = js ''Not specified''"

definition notSpecifiedFr :: jsstring where
  "notSpecifiedFr = js ''Non sp'' @ [0xE9] @ js ''cifi'' @ [0xE9]"

definition noConcernsEn :: jsstring where
  "noConcernsEn = js ''None''"

definition noConcernsFr :: jsstring where
  "noConcernsFr = js ''Aucune''"

definition photoNoticeEn :: jsstring where
  "photoNoticeEn = js ''Skin photo provided for visual analysis.''"

definition photoNoticeFr :: jsstring where
  "photoNoticeFr = js ''Photo de peau fournie pour analyse visuelle.''"

definition userTemplateEn ::
  "jsstring \<Rightarrow> jsstring \<Rightarrow> jsstring \<Rightarrow> jsstring \<Rightarrow> jsstring \<Rightarrow> jsstring \<Rightarrow> jsstring" where
  "userTemplateEn skin conc age sun routine photo =
     openingEn @ skinLabelEn @ skin @ js ''\<newline>'' @ concernsLabelEn @ conc @ js ''\<newline>'' @
     ageLabelEn @ age @ js ''\<newline>'' @ sunLabelEn @ sun @ js ''\<newline>'' @
     routineLabelEn @ routine @ js ''\<newline>'' @ photo @ closingEn"

definition userTemplateFr ::
  "jsstring \<Rightarrow> jsstring \<Rightarrow> jsstring \<Rightarrow> jsstring \<Rightarrow> jsstring \<Rightarrow> jsstring \<Rightarrow> jsstring" where
  "userTemplateFr skin conc age sun routine photo =
     openingFr @ skinLabelFr @ skin @ js ''\<newline>'' @ concernsLabelFr @ conc @ js ''\<newline>'' @
     ageLabelFr @ age @ js ''\<newline>'' @ sunLabelFr @ sun @ js ''\<newline>'' @
     routineLabelFr @ routine @ js ''\<newline>'' @ photo @ closingFr"

text \<open>
  \<open>${v || d}\<close>: the value if it is truthy, else the placeholder, converted to a string.
\<close>

definition fieldText :: "jsvalue \<Rightarrow> jsstring \<Rightarrow> jsstring option" where
  "fieldText v d = toStr (orElse v (JStr d))"

text \<open>
  \<open>${Array.isArray(c) ? c.join(", ") : c || d}\<close>: the conditional binds weaker than
  \<open>||\<close>, so an array is joined whatever it holds and the placeholder is for the rest.
\<close>

definition concernsText :: "jsvalue \<Rightarrow> jsstring \<Rightarrow> jsstring option" where
  "concernsText c d = (case c of JArr xs \<Rightarrow> arrayJoin (js '', '') xs | _ \<Rightarrow> fieldText c d)"

definition photoLine :: "jsvalue \<Rightarrow> jsstring \<Rightarrow> jsstring" where
  "photoLine photoData notice = (if truthy photoData then notice else [])"

text \<open>The user prompt; \<open>None\<close> is the TypeError of a field that cannot be converted.\<close>

definition userPrompt :: "jsvalue \<Rightarrow> jsvalue \<Rightarrow> jsvalue \<Rightarrow> jsstring option" where
  "userPrompt language profile photoData =
     (if language = JStr (js ''fr'') then
        do {
          skin \<leftarrow> fieldText (getProp profile (js ''skinType'')) notSpecifiedFr;
          conc \<leftarrow> concernsText (getProp profile (js ''concerns'')) noConcernsFr;
          age \<leftarrow> fieldText (getProp profile (js ''ageRange'')) notSpecifiedFr;
          sun \<leftarrow> fieldText (getProp profile (js ''sunExposure'')) notSpecifiedFr;
          routine \<leftarrow> fieldText (getProp profile (js ''currentRoutine'')) notSpecifiedFr;
          Some (userTemplateFr skin conc age sun routine (photoLine photoData photoNoticeFr))
        }
      else
        do {
          skin \<leftarrow> fieldText (getProp profile (js ''skinType'')) notSpecifiedEn;
          conc \<leftarrow> concernsText (getProp profile (js ''concerns'')) noConcernsEn;
          age \<leftarrow> fieldText (getProp profile (js ''ageRange'')) notSpecifiedEn;
          sun \<leftarrow> fieldText (getProp profile (js ''sunExposure'')) notSpecifiedEn;
          routine \<leftarrow> fieldText (getProp profile (js ''currentRoutine'')) notSpecifiedEn;
          Some (userTemplateEn skin conc age sun routine (photoLine photoData photoNoticeEn))
        })"

section \<open>The request handlers (functions/src/index.ts)\<close>

text \<open>
  A thrown error, as the catch block reads it: its message, and its \<open>statusCode\<close> when
  that is an integer (\<open>None\<close> when the property is missing or no integer).
\<close>

record thrown =
  message :: jsstring
  statusCode :: "int option"

text \<open>
  The request as the handler reads it: the method, the \<open>content-type\<close> header
  (\<open>None\<close> when the request has none) and the parsed body.
\<close>

record request =
  httpMethod :: jsstring
  contentType :: "jsstring option"
  body :: jsvalue

text \<open>What \<open>res.status(n).json(x)\<close> sends: the status and the JSON body.\<close>

datatype responseBody =
    ErrorEnvelope jsstring
  | PhotoAnalysis jsstring
  | AnalysisResult jsvalue

record response =
  status :: int
  json :: responseBody

text \<open>
  The parts of a model call, \<open>{text}\<close> and \<open>{inlineData: {data, mimeType}}\<close>, and what
  \<open>result?.response?.text?.() ?? ""\<close> comes to: the text (empty when a link of the
  chain is missing), or the error that the call throws.
\<close>

datatype part =
    TextPart jsstring
  | InlineData jsstring jsstring

datatype modelReply =
    ModelText jsstring
  | ModelThrows thrown

text \<open>
  The module's state and environment: whether the lazy singleton holds a client, and
  \<open>process.env.GEMINI_API_KEY\<close>.
\<close>

record env =
  geminiClient :: bool
  GEMINI_API_KEY :: "jsstring option"

text \<open>
  One run of a handler: the response it sends, the environment it leaves, and the model
  calls it made, in order.
\<close>

record run =
  sent :: response
  envAfter :: env
  modelCalls :: "part list list"

definition missingKeyError :: thrown where
  \<open>missingKeyError =
     \<lparr>message =
        js ''Missing GEMINI_API_KEY. Set it with: npx firebase-tools functions:config:set '' @
        js ''gemini.key="..." then redeploy, OR set env var in runtime.'',
      statusCode = None\<rparr>\<close>

definition getGeminiClient :: "env \<Rightarrow> thrown + env" where
  "getGeminiClient e =
     (if geminiClient e then Inr e
      else case GEMINI_API_KEY e of
             None \<Rightarrow> Inl missingKeyError
           | Some apiKey \<Rightarrow>
               if apiKey = [] then Inl missingKeyError else Inr (e\<lparr>geminiClient := True\<rparr>))"

text \<open>
  \<open>toLowerCase\<close> on a header value. Node hands header values over as Latin-1 strings,
  and on code units below 256 the lower case is this map.
\<close>

definition lowerUnit :: "jschar \<Rightarrow> jschar" where
  "lowerUnit c =
     (if (0x41 \<le> c \<and> c \<le> 0x5A) \<or> (0xC0 \<le> c \<and> c \<le> 0xDE \<and> c \<noteq> 0xD7) then c + 0x20 else c)"

definition toLowerCase :: "jsstring \<Rightarrow> jsstring" where
  "toLowerCase s = map lowerUnit s"

text \<open>\<open>assertPostJson\<close>: the error it throws, if any.\<close>

definition assertPostJson :: "request \<Rightarrow> thrown option" where
  "assertPostJson req =
     (if httpMethod req \<noteq> js ''POST'' then
        Some \<lparr>message = js ''Method not allowed. Use POST.'', statusCode = Some 405\<rparr>
      else
        let header = toLowerCase (case contentType req of Some h \<Rightarrow> h | None \<Rightarrow> [])
        in if \<not> includesStr header (js ''application/json'') then
             Some \<lparr>message = js ''Unsupported content-type. Use application/json.'',
                   statusCode = Some 415\<rparr>
           else None)"

text \<open>The catch block of both handlers.\<close>

definition errorResponse :: "thrown \<Rightarrow> response" where
  "errorResponse e =
     \<lparr>status = (case statusCode e of Some n \<Rightarrow> if n \<noteq> 0 then n else 500 | None \<Rightarrow> 500),
      json = ErrorEnvelope (message e)\<rparr>"

text \<open>The TypeError of a failed string conversion, with the message V8 gives it.\<close>

definition typeError :: thrown where
  "typeError = \<lparr>message = js ''Cannot convert object to primitive value'', statusCode = None\<rparr>"

text \<open>\<open>req.body ?? {}\<close>.\<close>

definition bodyOrEmpty :: "request \<Rightarrow> jsvalue" where
  "bodyOrEmpty req = coalesce (body req) (JObj [])"

text \<open>The image part that skinAnalysis adds when \<open>photoData\<close> is a non-empty string.\<close>

definition photoParts :: "jsvalue \<Rightarrow> part list" where
  "photoParts photoData =
     (case photoData of
        JStr s \<Rightarrow>
          if s \<noteq> [] then
            [InlineData (base64 (normalizeBase64 s)) (mimeType (normalizeBase64 s))]
          else []
      | _ \<Rightarrow> [])"

text \<open>What skinAnalysis does with the model's text (lines 222-247).\<close>

definition reconcile :: "(jsstring \<Rightarrow> jsstring) \<Rightarrow> jsstring \<Rightarrow> response" where
  "reconcile numberOf responseText =
     (if responseText = [] then
        \<lparr>status = 502, json = ErrorEnvelope (js ''Empty response from AI model.'')\<rparr>
      else
        case JSON_parse numberOf (stripFences responseText) of
          None \<Rightarrow> \<lparr>status = 502, json = ErrorEnvelope (js ''Invalid AI response format.'')\<rparr>
        | Some analysisResult \<Rightarrow> \<lparr>status = 200, json = AnalysisResult analysisResult\<rparr>)"

text \<open>\<open>language = "en"\<close> in the destructuring: the default stands in for \<open>undefined\<close> only.\<close>

definition languageOf :: "jsvalue \<Rightarrow> jsvalue" where
  "languageOf b =
     (if getProp b (js ''language'') = JUndefined then JStr (js ''en'')
      else getProp b (js ''language''))"

definition skinAnalysis ::
  "(jsstring \<Rightarrow> jsstring) \<Rightarrow> (part list \<Rightarrow> modelReply) \<Rightarrow> env \<Rightarrow> request \<Rightarrow> run" where
  "skinAnalysis numberOf generateContent e req =
     (case assertPostJson req of
        Some err \<Rightarrow> \<lparr>sent = errorResponse err, envAfter = e, modelCalls = []\<rparr>
      | None \<Rightarrow>
          let profile = getProp (bodyOrEmpty req) (js ''profile'');
              language = languageOf (bodyOrEmpty req);
              photoData = getProp (bodyOrEmpty req) (js ''photoData'')
          in
          if \<not> truthy profile then
            \<lparr>sent = \<lparr>status = 400, json = ErrorEnvelope (js ''Missing profile data.'')\<rparr>,
             envAfter = e, modelCalls = []\<rparr>
          else
            case getGeminiClient e of
              Inl err \<Rightarrow> \<lparr>sent = errorResponse err, envAfter = e, modelCalls = []\<rparr>
            | Inr e' \<Rightarrow>
                (case userPrompt language profile photoData of
                   None \<Rightarrow> \<lparr>sent = errorResponse typeError, envAfter = e', modelCalls = []\<rparr>
                 | Some prompt \<Rightarrow>
                     let contentParts =
                           TextPart (systemPrompt language @ js ''\<newline>\<newline>'' @ prompt)
                             # photoParts photoData
                     in
                     case generateContent contentParts of
                       ModelThrows err \<Rightarrow>
                         \<lparr>sent = errorResponse err, envAfter = e', modelCalls = [contentParts]\<rparr>
                     | ModelText responseText \<Rightarrow>
                         \<lparr>sent = reconcile numberOf responseText, envAfter = e',
                          modelCalls = [contentParts]\<rparr>))"

text \<open>analyzePhoto: the instruction sent with the image (lines 287-294).\<close>

definition coachTemplate :: "jsstring \<Rightarrow> jsstring" where
  \<open>coachTemplate language =
     js ''You are a premium cosmetic beauty coach specialized in melanin-rich skin.\<newline>'' @
     js ''Analyze the selfie for cosmetic insights only (NOT medical diagnosis). Be specific and actionable.\<newline>'' @
     js ''Return concise, structured recommendations (cleanser/treatment/moisturizer/SPF + 1-2 weekly actions) and include safety cautions for irritation/PIH risk.\<newline>'' @
     js ''Write in '' @ language @ js ''.''\<close>

definition basePrompt :: "jsvalue \<Rightarrow> jsvalue \<Rightarrow> jsstring" where
  "basePrompt prompt lang =
     (let language = (if lang = JStr (js ''fr'') then js ''French'' else js ''English'') in
      case prompt of
        JStr p \<Rightarrow> if p \<noteq> [] \<and> length (trim p) > 0 then trim p else coachTemplate language
      | _ \<Rightarrow> coachTemplate language)"

definition analyzePhoto :: "(part list \<Rightarrow> modelReply) \<Rightarrow> env \<Rightarrow> request \<Rightarrow> run" where
  "analyzePhoto generateContent e req =
     (case assertPostJson req of
        Some err \<Rightarrow> \<lparr>sent = errorResponse err, envAfter = e, modelCalls = []\<rparr>
      | None \<Rightarrow>
          let prompt = getProp (bodyOrEmpty req) (js ''prompt'');
              lang = getProp (bodyOrEmpty req) (js ''lang'')
          in
          case getProp (bodyOrEmpty req) (js ''imageBase64'') of
            JStr imageBase64 \<Rightarrow>
              if imageBase64 = [] then
                \<lparr>sent = \<lparr>status = 400, json = ErrorEnvelope (js ''Missing imageBase64 (string).'')\<rparr>,
                 envAfter = e, modelCalls = []\<rparr>
              else if length imageBase64 > 8000000 then
                \<lparr>sent = \<lparr>status = 413,
                          json = ErrorEnvelope (js ''Image too large. Please upload a smaller image.'')\<rparr>,
                 envAfter = e, modelCalls = []\<rparr>
              else
                let image = normalizeBase64 imageBase64 in
                (case getGeminiClient e of
                   Inl err \<Rightarrow> \<lparr>sent = errorResponse err, envAfter = e, modelCalls = []\<rparr>
                 | Inr e' \<Rightarrow>
                     let contentParts =
                           [TextPart (basePrompt prompt lang),
                            InlineData (base64 image) (mimeType image)]
                     in
                     case generateContent contentParts of
                       ModelThrows err \<Rightarrow>
                         \<lparr>sent = errorResponse err, envAfter = e', modelCalls = [contentParts]\<rparr>
                     | ModelText analysisText \<Rightarrow>
                         if analysisText = [] then
                           \<lparr>sent = \<lparr>status = 502,
                                    json = ErrorEnvelope (js ''Empty response from AI model.'')\<rparr>,
                            envAfter = e', modelCalls = [contentParts]\<rparr>
                         else
                           \<lparr>sent = \<lparr>status = 200, json = PhotoAnalysis analysisText\<rparr>,
                            envAfter = e', modelCalls = [contentParts]\<rparr>)
          | _ \<Rightarrow>
              \<lparr>sent = \<lparr>status = 400, json = ErrorEnvelope (js ''Missing imageBase64 (string).'')\<rparr>,
               envAfter = e, modelCalls = []\<rparr>)"

section \<open>The client's check-in analysis (analyzeCheckInPhotos)\<close>

text \<open>
  The profile of a request as the client types it (interface SkinAnalysisRequest): every
  field may be missing. \<open>profileValue\<close> is the object that reaches the server:
  \<open>JSON.stringify\<close> leaves a missing field out.
\<close>

record profileInput =
  skinType :: "jsstring option"
  concerns :: "jsstring list option"
  ageRange :: "jsstring option"
  sunExposure :: "jsstring option"
  currentRoutine :: "jsstring option"
  photoData :: "jsstring option"

definition property :: "string \<Rightarrow> jsvalue option \<Rightarrow> (jsstring \<times> jsvalue) list" where
  "property k v = (case v of None \<Rightarrow> [] | Some x \<Rightarrow> [(js k, x)])"

definition profileValue :: "profileInput \<Rightarrow> jsvalue" where
  "profileValue p =
     JObj (property ''skinType'' (map_option JStr (skinType p)) @
           property ''concerns'' (map_option (\<lambda>xs. JArr (map JStr xs)) (concerns p)) @
           property ''ageRange'' (map_option JStr (ageRange p)) @
           property ''sunExposure'' (map_option JStr (sunExposure p)) @
           property ''currentRoutine'' (map_option JStr (currentRoutine p)) @
           property ''photoData'' (map_option JStr (photoData p)))"

text \<open>A field of the profile as a value: \<open>undefined\<close> when it is missing.\<close>

definition absentOr :: "'a option \<Rightarrow> ('a \<Rightarrow> jsvalue) \<Rightarrow> jsvalue" where
  "absentOr f c = (case f of None \<Rightarrow> JUndefined | Some v \<Rightarrow> c v)"

text \<open>The photos of a check-in: each a string, or \<open>null\<close> or missing (\<open>None\<close>).\<close>

record photos =
  front :: "jsstring option"
  left_profile :: "jsstring option"
  right_profile :: "jsstring option"

record checkInPayload =
  profile :: jsvalue
  photos :: photos
  language :: jsstring

text \<open>\<open>a || b\<close> on photos: the empty string is falsy as \<open>null\<close> is.\<close>

definition orPhoto :: "jsstring option \<Rightarrow> jsstring option \<Rightarrow> jsstring option" where
  "orPhoto a b = (case a of None \<Rightarrow> b | Some s \<Rightarrow> if s = [] then b else a)"

definition photoToAnalyze :: "photos \<Rightarrow> jsstring option" where
  "photoToAnalyze ph = orPhoto (orPhoto (front ph) (left_profile ph)) (right_profile ph)"

text \<open>
  What \<open>await fetch(...)\<close> comes to: a rejection, or a response with \<open>ok\<close>, \<open>status\<close>,
  \<open>statusText\<close> and what \<open>response.json()\<close> resolves to (\<open>None\<close> when it rejects).
\<close>

datatype fetchResult =
    FetchRejects
  | FetchResponse bool nat jsstring "jsvalue option"

datatype failure =
    ErrorThrown jsstring
  | FetchRejected
  | JsonRejected
  | TypeErrorThrown

record derivedFeatures =
  detected_concerns :: jsvalue
  ai_notes :: jsvalue

record checkInResult =
  overall_score :: jsvalue
  summary :: jsvalue
  derived_features :: derivedFeatures

function decimal :: "nat \<Rightarrow> jsstring" where
  "decimal n = (if n < 10 then [of_nat (48 + n)] else decimal (n div 10) @ [of_nat (48 + n mod 10)])"
  by pat_completeness auto
termination
  by (relation "measure id") auto

text \<open>The error of a response that is not ok (lines 222-232).\<close>

definition checkInError :: "nat \<Rightarrow> jsstring \<Rightarrow> jsvalue option \<Rightarrow> failure" where
  "checkInError st stText errorBody =
     (let errorMessage = js ''Failed to analyze check-in photos'';
          fallback = errorMessage @ js '' ('' @ decimal st @ js '' '' @ stText @ js '')''
      in case errorBody of
           None \<Rightarrow> ErrorThrown fallback
         | Some errorData \<Rightarrow>
             if nullish errorData then ErrorThrown fallback
             else (case toStr (orElse (getProp errorData (js ''error'')) (JStr errorMessage)) of
                     None \<Rightarrow> TypeErrorThrown
                   | Some m \<Rightarrow> ErrorThrown m))"

text \<open>
  The body of the POST to skinAnalysis; \<open>JSON.stringify\<close> leaves out a property that
  is \<open>undefined\<close>.
\<close>

definition checkInRequest :: "checkInPayload \<Rightarrow> jsstring \<Rightarrow> jsvalue" where
  "checkInRequest payload photo =
     JObj (filter (\<lambda>(k, v). v \<noteq> JUndefined)
             [(js ''profile'', profile payload),
              (js ''language'', JStr (language payload)),
              (js ''photoData'', JStr photo)])"

text \<open>
  analyzeCheckInPhotos with the network as a parameter: the result or the failure, and
  the bodies of the requests it sent.
\<close>

definition analyzeCheckInPhotos ::
  "(jsvalue \<Rightarrow> fetchResult) \<Rightarrow> checkInPayload \<Rightarrow> (failure + checkInResult) \<times> jsvalue list" where
  "analyzeCheckInPhotos fetch payload =
     (case photoToAnalyze (photos payload) of
        None \<Rightarrow> (Inl (ErrorThrown (js ''No photo available for analysis'')), [])
      | Some photo \<Rightarrow>
          if photo = [] then (Inl (ErrorThrown (js ''No photo available for analysis'')), [])
          else
            (case fetch (checkInRequest payload photo) of
               FetchRejects \<Rightarrow> (Inl FetchRejected, [checkInRequest payload photo])
             | FetchResponse ok st stText parsed \<Rightarrow>
                 if \<not> ok then (Inl (checkInError st stText parsed), [checkInRequest payload photo])
                 else
                   (case parsed of
                      None \<Rightarrow> (Inl JsonRejected, [checkInRequest payload photo])
                    | Some data \<Rightarrow>
                        if nullish data then (Inl TypeErrorThrown, [checkInRequest payload photo])
                        else
                          (Inr \<lparr>overall_score =
                                  coalesce (getProp data (js ''overallScore'')) (JNum (js ''75'')),
                                summary =
                                  coalesce (getProp data (js ''summary''))
                                    (JStr (js ''Analysis complete.'')),
                                derived_features =
                                  \<lparr>detected_concerns =
                                     coalesce (getProp data (js ''concerns'')) (JArr []),
                                   ai_notes = coalesce (getProp data (js ''summary'')) (JStr [])\<rparr>\<rparr>,
                           [checkInRequest payload photo]))))"

section \<open>Basic facts about string literals\<close>

lemma of_char_nat_less: "(of_char c :: nat) < 256"
proof -
  have "(of_char c :: nat) = of_char c mod 256" by (simp only: of_char_mod_256)
  also have "\<dots> < 256" by simp
  finally show ?thesis .
qed

lemma unat_of_char: "unat (of_char c :: 16 word) = of_char c"
proof -
  have "(256::nat) < 2 ^ LENGTH(16)" by simp
  with of_char_nat_less[of c] have lt: "(of_char c :: nat) < 2 ^ LENGTH(16)"
    by (rule less_trans)
  have "(of_char c :: 16 word) = of_nat (of_char c)" by (simp only: of_nat_of_char)
  then have "unat (of_char c :: 16 word) = unat (of_nat (of_char c :: nat) :: 16 word)" by simp
  also have "\<dots> = of_char c" using lt by (simp only: unat_of_nat mod_less)
  finally show ?thesis .
qed

lemma of_char_16_inj: "(of_char c :: 16 word) = of_char d \<longleftrightarrow> c = d"
proof
  assume "(of_char c :: 16 word) = of_char d"
  then have "unat (of_char c :: 16 word) = unat (of_char d :: 16 word)" by simp
  then have "(of_char c :: nat) = of_char d" by (simp only: unat_of_char)
  then show "c = d" by simp
qed simp

lemma js_eq_iff [simp]: "js a = js b \<longleftrightarrow> a = b"
proof (induction a arbitrary: b)
  case Nil
  then show ?case by (cases b) (simp_all add: js_def)
next
  case (Cons x xs)
  show ?case
  proof (cases b)
    case Nil
    then show ?thesis by (simp add: js_def)
  next
    case (Cons y ys)
    have "js (x # xs) = js (y # ys) \<longleftrightarrow> (of_char x :: 16 word) = of_char y \<and> js xs = js ys"
      by (simp add: js_def)
    then show ?thesis using Cons Cons.IH[of ys] by (simp only: of_char_16_inj list.inject)
  qed
qed

lemma js_Nil_iff [simp]: "js a = [] \<longleftrightarrow> a = []" "[] = js a \<longleftrightarrow> a = []"
  by (auto simp: js_def)

lemma length_js [simp]: "length (js a) = length a"
  by (simp add: js_def)

section \<open>Properties of trimming and fence stripping\<close>

lemma startsWith_prefix: "startsWith s p \<longleftrightarrow> prefix p s"
  unfolding startsWith_def
  by (metis append_eq_conv_conj prefix_def take_is_prefix)

lemma endsWith_suffix: "endsWith s p \<longleftrightarrow> suffix p s"
proof
  assume "endsWith s p"
  then have "drop (length s - length p) s = p" by (simp add: endsWith_def)
  then show "suffix p s" by (metis suffix_drop)
next
  assume "suffix p s"
  then obtain q where "s = q @ p" by (auto simp: suffix_def)
  then show "endsWith s p" by (simp add: endsWith_def)
qed

lemma trimEnd_prefix: "prefix (trimEnd x) x"
proof -
  have "rev x = takeWhile isWhiteSpace (rev x) @ dropWhile isWhiteSpace (rev x)" by simp
  then have "x = rev (dropWhile isWhiteSpace (rev x)) @ rev (takeWhile isWhiteSpace (rev x))"
    by (metis rev_append rev_rev_ident)
  then show ?thesis unfolding trimEnd_def prefix_def by blast
qed

lemma trimStart_suffix: "suffix (trimStart x) x"
  unfolding trimStart_def by (rule suffix_dropWhile)

lemma trimStart_append: "trimStart y \<noteq> [] \<Longrightarrow> trimStart (y @ z) = trimStart y @ z"
  unfolding trimStart_def
  by (metis dropWhile_append1 dropWhile_eq_Nil_conv)

lemma trimEnd_append: "trimEnd y \<noteq> [] \<Longrightarrow> trimEnd (w @ y) = w @ trimEnd y"
proof -
  assume "trimEnd y \<noteq> []"
  then have "dropWhile isWhiteSpace (rev y) \<noteq> []" by (simp add: trimEnd_def)
  then have "dropWhile isWhiteSpace (rev y @ rev w) = dropWhile isWhiteSpace (rev y) @ rev w"
    by (metis dropWhile_append1 dropWhile_eq_Nil_conv)
  then show ?thesis by (simp add: trimEnd_def)
qed

lemma trimStart_id: "x = [] \<or> \<not> isWhiteSpace (hd x) \<Longrightarrow> trimStart x = x"
  by (cases x) (auto simp: trimStart_def)

lemma trimEnd_id: "x = [] \<or> \<not> isWhiteSpace (last x) \<Longrightarrow> trimEnd x = x"
proof -
  assume a: "x = [] \<or> \<not> isWhiteSpace (last x)"
  show ?thesis
  proof (cases "x = []")
    case True
    then show ?thesis by (simp add: trimEnd_def)
  next
    case False
    then obtain a as where r: "rev x = a # as" by (cases "rev x") auto
    then have "a = last x" using False by (metis hd_rev list.sel(1))
    then have "\<not> isWhiteSpace a" using a False by simp
    then have "dropWhile isWhiteSpace (a # as) = a # as" by simp
    then have "dropWhile isWhiteSpace (rev x) = rev x" by (simp only: r)
    then show ?thesis by (simp add: trimEnd_def)
  qed
qed

lemma trimStart_hd: "trimStart x \<noteq> [] \<Longrightarrow> \<not> isWhiteSpace (hd (trimStart x))"
  unfolding trimStart_def by (metis hd_dropWhile)

lemma trimEnd_last: "trimEnd x \<noteq> [] \<Longrightarrow> \<not> isWhiteSpace (last (trimEnd x))"
proof -
  assume "trimEnd x \<noteq> []"
  then have ne: "dropWhile isWhiteSpace (rev x) \<noteq> []" by (simp add: trimEnd_def)
  then have "\<not> isWhiteSpace (hd (dropWhile isWhiteSpace (rev x)))" by (metis hd_dropWhile)
  then show ?thesis using ne by (simp add: trimEnd_def last_rev)
qed

lemma trim_ends:
  "trim s = [] \<or> (\<not> isWhiteSpace (hd (trim s)) \<and> \<not> isWhiteSpace (last (trim s)))"
proof (cases "trim s = []")
  case True
  then show ?thesis by simp
next
  case False
  then have l: "\<not> isWhiteSpace (last (trim s))" by (simp add: trim_def trimEnd_last)
  from False have ne: "trimStart s \<noteq> []" by (auto simp: trim_def trimEnd_def)
  obtain w where w: "trimStart s = trim s @ w"
    using trimEnd_prefix[of "trimStart s"] by (auto simp: trim_def prefix_def)
  then have "hd (trim s) = hd (trimStart s)" using False by simp
  then have "\<not> isWhiteSpace (hd (trim s))" using trimStart_hd[OF ne] by simp
  with l show ?thesis by simp
qed

lemma trim_id: "x = [] \<or> (\<not> isWhiteSpace (hd x) \<and> \<not> isWhiteSpace (last x)) \<Longrightarrow> trim x = x"
  by (auto simp: trim_def trimStart_id trimEnd_id)

lemma trim_trim: "trim (trim s) = trim s"
  by (rule trim_id) (rule trim_ends)

lemma fence_units: "js ''```'' = [0x60, 0x60, 0x60]" "js ''```json'' = js ''```'' @ js ''json''"
  by (simp_all add: js_def)

lemma backtick_not_space: "\<not> isWhiteSpace 0x60"
  by (simp add: isWhiteSpace_def isLineTerminator_def)

lemma fence_prefix_hd: "prefix (js ''```'') x \<Longrightarrow> x \<noteq> [] \<and> \<not> isWhiteSpace (hd x)"
  by (auto simp: fence_units prefix_def backtick_not_space)

lemma fence_suffix_last: "suffix (js ''```'') x \<Longrightarrow> x \<noteq> [] \<and> \<not> isWhiteSpace (last x)"
  by (auto simp: fence_units suffix_def backtick_not_space)

lemma fence_json_prefix: "prefix (js ''```json'') x \<Longrightarrow> prefix (js ''```'') x"
  by (auto simp: fence_units prefix_def)

lemma stripFences_unfenced:
  assumes "\<not> prefix (js ''```'') (trim r)" and "\<not> suffix (js ''```'') (trim r)"
  shows "stripFences r = trim r"
proof -
  have "\<not> prefix (js ''```json'') (trim r)" using assms(1) fence_json_prefix by blast
  then show ?thesis
    using assms by (simp add: stripFences_def Let_def startsWith_prefix endsWith_suffix trim_trim)
qed

lemma trimEnd_keeps_prefix:
  assumes "y = [] \<or> \<not> isWhiteSpace (last y)"
  shows "prefix y (trimEnd (y @ z))"
proof (cases "y = []")
  case True
  then show ?thesis by simp
next
  case False
  then have h: "\<not> isWhiteSpace (hd (rev y))" using assms by (simp add: hd_rev)
  from False obtain a as where r: "rev y = a # as" by (cases "rev y") auto
  with h have d: "dropWhile isWhiteSpace (rev y) = rev y" by simp
  have "suffix (rev y) (dropWhile isWhiteSpace (rev z @ rev y))"
    by (simp add: dropWhile_append d suffix_def)
  then have "prefix (rev (rev y)) (rev (dropWhile isWhiteSpace (rev z @ rev y)))"
    by (simp only: suffix_to_prefix rev_rev_ident)
  then show ?thesis by (simp add: trimEnd_def)
qed

lemma fence_prefix_trim:
  assumes "prefix (js ''```'') x"
  shows "prefix (js ''```'') (trim x)"
proof -
  from assms obtain z where z: "x = js ''```'' @ z" by (auto simp: prefix_def)
  have "trimStart x = x" using fence_prefix_hd[OF assms] by (simp add: trimStart_id)
  then have "trim x = trimEnd (js ''```'' @ z)" by (simp add: trim_def z)
  moreover have "prefix (js ''```'') (trimEnd (js ''```'' @ z))"
    by (rule trimEnd_keeps_prefix) (simp add: fence_units backtick_not_space)
  ultimately show ?thesis by simp
qed

lemma short_fenced:
  assumes p: "prefix (js ''```'') r" and s: "suffix (js ''```'') r" and l: "length r < 6"
  shows "drop 3 r = take (length r - 3) r" and "\<not> suffix (js ''```'') (drop 3 r)"
proof -
  from p obtain x where x: "r = [0x60, 0x60, 0x60] @ x" by (auto simp: prefix_def fence_units)
  from s have d: "drop (length r - 3) r = [0x60, 0x60, 0x60]"
    by (auto simp: suffix_def fence_units)
  from l x have lx: "length x < 3" by simp
  have "length (drop 3 r) < 3" using l by simp
  then show "\<not> suffix (js ''```'') (drop 3 r)"
    by (metis length_js suffix_length_le not_less length_Cons list.size(3) numeral_3_eq_3)
  consider "x = []" | a where "x = [a]" | a b where "x = [a, b]"
    using lx by (cases x; cases "tl x"; cases "tl (tl x)") auto
  then show "drop 3 r = take (length r - 3) r"
  proof cases
    case 1
    then show ?thesis by (simp add: x)
  next
    case 2
    then show ?thesis using d by (simp add: x)
  next
    case 3
    then show ?thesis using d by (simp add: x)
  qed
qed

lemma stripFences_fenceBody:
  assumes "atMostOneLeadingFence s"
  shows "stripFences s = fenceBody s"
proof -
  let ?F = "js ''```''" and ?FJ = "js ''```json''"
  define t where "t = trim s"
  define a1 where "a1 = (if prefix ?FJ t then drop 7 t else t)"
  define a2 where "a2 = (if prefix ?F a1 then drop 3 a1 else a1)"
  define a3 where "a3 = (if suffix ?F a2 then take (length a2 - 3) a2 else a2)"
  define r where "r = afterLeadingFence t"
  define b where "b = (if suffix ?F r then take (length r - 3) r else r)"
  have code: "stripFences s = trim a3"
    by (simp add: stripFences_def Let_def startsWith_prefix endsWith_suffix sliceFrom_def
        sliceDropLast_def t_def a1_def a2_def a3_def)
  have body: "fenceBody s = trim b"
    by (simp add: fenceBody_def beforeTrailingFence_def endsWith_suffix sliceDropLast_def
        t_def r_def b_def)
  have H: "\<not> prefix ?F (trim b)"
    using assms by (simp add: atMostOneLeadingFence_def startsWith_prefix body)
  have "a3 = b"
  proof (cases "prefix ?FJ t")
    case True
    then have r: "r = drop 7 t" and a1: "a1 = r"
      by (simp_all add: r_def a1_def afterLeadingFence_def startsWith_prefix sliceFrom_def)
    show ?thesis
    proof (cases "prefix ?F r")
      case False
      then have "a2 = r" by (simp add: a2_def a1)
      then show ?thesis by (simp add: a3_def b_def)
    next
      case pr: True
      then have a2: "a2 = drop 3 r" by (simp add: a2_def a1)
      have sr: "suffix ?F r"
      proof (rule ccontr)
        assume "\<not> suffix ?F r"
        then have "b = r" by (simp add: b_def)
        with pr H fence_prefix_trim show False by simp
      qed
      then have b: "b = take (length r - 3) r" by (simp add: b_def)
      have short: "length r < 6"
      proof (rule ccontr)
        assume "\<not> length r < 6"
        then have "3 \<le> length r - 3" by simp
        moreover from pr have "take 3 r = ?F"
          by (metis startsWith_prefix startsWith_def length_js length_Cons list.size(3) numeral_3_eq_3)
        ultimately have "take 3 b = ?F" by (simp add: b min_def)
        then have "prefix ?F b" by (metis take_is_prefix)
        with H fence_prefix_trim show False by blast
      qed
      from short_fenced[OF pr sr short] show ?thesis by (simp add: a3_def a2 b)
    qed
  next
    case False
    then have a1: "a1 = t" by (simp add: a1_def)
    have "a2 = r"
      using False by (simp add: a2_def a1 r_def afterLeadingFence_def startsWith_prefix sliceFrom_def)
    then show ?thesis by (simp add: a3_def b_def)
  qed
  with code body show ?thesis by simp
qed



section \<open>Properties of JSON.parse\<close>

text \<open>
  Whitespace that \<open>trim\<close> removes is never the start of a token and never inside a
  token that ends the text, so a text that parses parses to the same value once trimmed.
\<close>

lemma whitespace_range: "isWhiteSpace c \<Longrightarrow> c \<le> 0x20 \<or> 0xA0 \<le> c"
  unfolding isWhiteSpace_def isLineTerminator_def
  by (auto simp: word_le_nat_alt)

lemma jsonWs_whitespace: "isJsonWs c \<Longrightarrow> isWhiteSpace c"
  by (auto simp: isJsonWs_def isWhiteSpace_def isLineTerminator_def)

lemma whitespace_not_digit: "isWhiteSpace c \<Longrightarrow> \<not> isDigit c"
  using whitespace_range[of c] by (auto simp: isDigit_def word_le_nat_alt)

lemma whitespace_not_hex: "isWhiteSpace c \<Longrightarrow> \<not> isHexDigit c"
  using whitespace_range[of c] by (auto simp: isHexDigit_def isDigit_def word_le_nat_alt)

lemma whitespace_not_printable: "isWhiteSpace c \<Longrightarrow> \<not> (0x21 \<le> c \<and> c \<le> 0x7E)"
  using whitespace_range[of c] by (auto simp: word_le_nat_alt)

lemma nextToken_whitespace: "isWhiteSpace c \<Longrightarrow> nextToken (c # s) = None"
  using whitespace_not_digit[of c] whitespace_not_printable[of c]
  by (auto simp: nextToken_def startsWith_def js_def)

lemma takeWhile_snoc_not: "\<not> P c \<Longrightarrow> takeWhile P (r @ [c]) = takeWhile P r"
  by (induction r) auto

lemma dropWhile_snoc_not: "\<not> P c \<Longrightarrow> dropWhile P (r @ [c]) = dropWhile P r @ [c]"
  by (induction r) auto

lemma lexEscape_snoc:
  assumes "isWhiteSpace c" and "lexEscape (s @ [c]) = Some (u, r)"
  shows "\<exists>r0. r = r0 @ [c] \<and> lexEscape s = Some (u, r0)"
proof (cases s)
  case Nil
  with assms whitespace_not_printable[of c] show ?thesis
    by (auto simp: lexEscape_def split: if_splits)
next
  case (Cons e t)
  show ?thesis
  proof (cases "e = 0x75 \<and> length t < 4")
    case True
    then have "take 4 (t @ [c]) = t @ [c]" by auto
    then have "\<not> list_all isHexDigit (take 4 (t @ [c]))"
      using whitespace_not_hex[OF assms(1)] by simp
    with assms Cons True show ?thesis
      by (auto simp: lexEscape_def split: if_splits)
  next
    case False
    with assms Cons show ?thesis
      by (auto simp: lexEscape_def split: if_splits)
  qed
qed

lemma lexString_snoc:
  "isWhiteSpace c \<Longrightarrow> lexString (s @ [c]) = Some (str, rest) \<Longrightarrow>
   \<exists>rest0. rest = rest0 @ [c] \<and> lexString s = Some (str, rest0)"
proof (induction s arbitrary: str rule: lexString.induct)
  case 1
  then show ?case
    using whitespace_not_printable[of c] by (auto split: if_splits)
next
  case (2 x xs)
  show ?case
  proof (cases "x = 0x22")
    case True
    with "2.prems" show ?thesis by simp
  next
    case nq: False
    show ?thesis
    proof (cases "x = 0x5C")
      case True
      with nq "2.prems" obtain u r str' where
        e: "lexEscape (xs @ [c]) = Some (u, r)" and l: "lexString r = Some (str', rest)"
        and s: "str = u # str'"
        by (auto split: option.splits)
      from lexEscape_snoc[OF "2.prems"(1) e] obtain r0 where
        r0: "r = r0 @ [c]" "lexEscape xs = Some (u, r0)" by blast
      from "2.IH"(1)[OF nq True r0(2) refl "2.prems"(1)] l r0(1)
      obtain rest0 where "rest = rest0 @ [c]" "lexString r0 = Some (str', rest0)" by blast
      with nq True r0 s show ?thesis by simp
    next
      case False
      with nq "2.prems" obtain str' where
        c: "\<not> x < 0x20" and l: "lexString (xs @ [c]) = Some (str', rest)" and s: "str = x # str'"
        by (auto split: if_splits)
      from "2.IH"(2)[OF nq False c "2.prems"(1) l]
      obtain rest0 where "rest = rest0 @ [c]" "lexString xs = Some (str', rest0)" by blast
      with nq False c s show ?thesis by simp
    qed
  qed
qed

lemma lexMinus_snoc:
  "isWhiteSpace c \<Longrightarrow> lexMinus (s @ [c]) = (fst (lexMinus s), snd (lexMinus s) @ [c])"
  using whitespace_not_printable[of c]
  by (cases s) (auto simp: lexMinus_def)

lemma lexSign_snoc:
  "isWhiteSpace c \<Longrightarrow> lexSign (s @ [c]) = (fst (lexSign s), snd (lexSign s) @ [c])"
  using whitespace_not_printable[of c]
  by (cases s) (auto simp: lexSign_def)

lemma lexInt_snoc:
  "isWhiteSpace c \<Longrightarrow> lexInt (s @ [c]) = Some (i, rest) \<Longrightarrow>
   \<exists>rest0. rest = rest0 @ [c] \<and> lexInt s = Some (i, rest0)"
  using whitespace_not_digit[of c] whitespace_not_printable[of c]
  by (cases s)
    (auto simp: lexInt_def takeWhile_snoc_not dropWhile_snoc_not split: if_splits)

lemma lexFrac_snoc:
  "isWhiteSpace c \<Longrightarrow> lexFrac (s @ [c]) = Some (f, rest) \<Longrightarrow>
   \<exists>rest0. rest = rest0 @ [c] \<and> lexFrac s = Some (f, rest0)"
  using whitespace_not_digit[of c] whitespace_not_printable[of c]
  by (cases s)
    (auto simp: lexFrac_def takeWhile_snoc_not dropWhile_snoc_not split: if_splits)

lemma lexExp_snoc:
  assumes "isWhiteSpace c" and "lexExp (s @ [c]) = Some (e, rest)"
  shows "\<exists>rest0. rest = rest0 @ [c] \<and> lexExp s = Some (e, rest0)"
proof (cases s)
  case Nil
  with assms whitespace_not_printable[of c] show ?thesis
    by (auto simp: lexExp_def split: if_splits)
next
  case (Cons x t)
  obtain sg t' where sg: "lexSign t = (sg, t')" by (cases "lexSign t")
  then have sg': "lexSign (t @ [c]) = (sg, t' @ [c])"
    using lexSign_snoc[OF assms(1), of t] by simp
  from assms Cons sg sg' whitespace_not_digit[OF assms(1)] show ?thesis
    by (auto simp: lexExp_def takeWhile_snoc_not dropWhile_snoc_not split: if_splits)
qed

lemma lexNumber_snoc:
  assumes "isWhiteSpace c" and "lexNumber (s @ [c]) = Some (num, rest)"
  shows "\<exists>rest0. rest = rest0 @ [c] \<and> lexNumber s = Some (num, rest0)"
proof -
  obtain m r0 where m: "lexMinus s = (m, r0)" by (cases "lexMinus s")
  then have m': "lexMinus (s @ [c]) = (m, r0 @ [c])"
    using lexMinus_snoc[OF assms(1), of s] by simp
  from assms(2) m' obtain i r1' f r2' e where
    i: "lexInt (r0 @ [c]) = Some (i, r1')" and
    f: "lexFrac r1' = Some (f, r2')" and
    e: "lexExp r2' = Some (e, rest)" and
    n: "num = m @ i @ f @ e"
    by (auto simp: lexNumber_def split: option.splits)
  from lexInt_snoc[OF assms(1) i] obtain r1 where
    r1: "r1' = r1 @ [c]" "lexInt r0 = Some (i, r1)" by blast
  from lexFrac_snoc[OF assms(1)] f r1(1) obtain r2 where
    r2: "r2' = r2 @ [c]" "lexFrac r1 = Some (f, r2)" by blast
  from lexExp_snoc[OF assms(1)] e r2(1) obtain r3 where
    r3: "rest = r3 @ [c]" "lexExp r2 = Some (e, r3)" by blast
  from m r1 r2 r3 n show ?thesis by (simp add: lexNumber_def)
qed

lemma literal_snoc:
  assumes "c \<notin> set lit" and "length lit = n" and "startsWith (s @ [c]) lit"
  shows "startsWith s lit" and "drop n (s @ [c]) = drop n s @ [c]"
proof -
  have "n \<le> length s"
  proof (rule ccontr)
    assume "\<not> n \<le> length s"
    then have "take (length lit) (s @ [c]) = s @ [c]" using assms(2) by simp
    with assms(3) have "lit = s @ [c]" by (simp add: startsWith_def)
    with assms(1) show False by simp
  qed
  with assms(2,3) show "startsWith s lit" and "drop n (s @ [c]) = drop n s @ [c]"
    by (simp_all add: startsWith_def)
qed

lemma startsWith_append: "startsWith s p \<Longrightarrow> startsWith (s @ z) p"
  by (simp add: startsWith_prefix)

lemma nextToken_snoc:
  assumes ws: "isWhiteSpace c" and tok: "nextToken ((x # xs) @ [c]) = Some (t, rest)"
  shows "\<exists>rest0. rest = rest0 @ [c] \<and> nextToken (x # xs) = Some (t, rest0)"
proof -
  have np: "\<not> (0x21 \<le> c \<and> c \<le> 0x7E)" using ws by (rule whitespace_not_printable)
  consider (str) "x = 0x22"
    | (num) "x \<noteq> 0x22" "x = 0x2D \<or> isDigit x"
    | (punct) "x \<noteq> 0x22" "\<not> (x = 0x2D \<or> isDigit x)"
        "x = 0x7B \<or> x = 0x7D \<or> x = 0x5B \<or> x = 0x5D \<or> x = 0x3A \<or> x = 0x2C"
    | (word) "x \<noteq> 0x22" "\<not> (x = 0x2D \<or> isDigit x)"
        "\<not> (x = 0x7B \<or> x = 0x7D \<or> x = 0x5B \<or> x = 0x5D \<or> x = 0x3A \<or> x = 0x2C)"
    by blast
  then show ?thesis
  proof cases
    case str
    with tok obtain s where l: "lexString (xs @ [c]) = Some (s, rest)" and t: "t = StringTok s"
      by (auto simp: nextToken_def)
    from lexString_snoc[OF ws l] obtain rest0 where
      "rest = rest0 @ [c]" "lexString xs = Some (s, rest0)" by blast
    with str t show ?thesis by (auto simp: nextToken_def)
  next
    case num
    then have nopunct: "x \<noteq> 0x7B" "x \<noteq> 0x7D" "x \<noteq> 0x5B" "x \<noteq> 0x5D" "x \<noteq> 0x3A" "x \<noteq> 0x2C"
      by (auto simp: isDigit_def word_le_nat_alt)
    with num tok obtain n where l: "lexNumber ((x # xs) @ [c]) = Some (n, rest)" and t: "t = NumberTok n"
      by (auto simp: nextToken_def)
    from lexNumber_snoc[OF ws l] obtain rest0 where
      "rest = rest0 @ [c]" "lexNumber (x # xs) = Some (n, rest0)" by blast
    with num nopunct t show ?thesis by (auto simp: nextToken_def)
  next
    case punct
    with tok show ?thesis by (auto simp: nextToken_def split: if_splits)
  next
    case word
    have ct: "c \<notin> set (js ''true'')" "c \<notin> set (js ''false'')" "c \<notin> set (js ''null'')"
      using np by (auto simp: js_def)
    have lt: "length (js ''true'') = 4" "length (js ''false'') = 5" "length (js ''null'') = 4"
      by simp_all
    from word tok consider
        (t) "startsWith ((x # xs) @ [c]) (js ''true'')" "t = TrueTok" "rest = drop 4 ((x # xs) @ [c])"
      | (f) "\<not> startsWith ((x # xs) @ [c]) (js ''true'')"
            "startsWith ((x # xs) @ [c]) (js ''false'')" "t = FalseTok" "rest = drop 5 ((x # xs) @ [c])"
      | (n) "\<not> startsWith ((x # xs) @ [c]) (js ''true'')"
            "\<not> startsWith ((x # xs) @ [c]) (js ''false'')"
            "startsWith ((x # xs) @ [c]) (js ''null'')" "t = NullTok" "rest = drop 4 ((x # xs) @ [c])"
      by (auto simp: nextToken_def split: if_splits)
    then show ?thesis
    proof cases
      case t
      have "startsWith (x # xs) (js ''true'')" "drop 4 ((x # xs) @ [c]) = drop 4 (x # xs) @ [c]"
        by (rule literal_snoc[OF ct(1) lt(1) t(1)])+
      with word t show ?thesis by (simp add: nextToken_def)
    next
      case f
      have a: "startsWith (x # xs) (js ''false'')" "drop 5 ((x # xs) @ [c]) = drop 5 (x # xs) @ [c]"
        by (rule literal_snoc[OF ct(2) lt(2) f(2)])+
      have b: "\<not> startsWith (x # xs) (js ''true'')"
        using f(1) startsWith_append[of "x # xs" _ "[c]"] by blast
      from a b word f show ?thesis by (simp add: nextToken_def)
    next
      case n
      have a: "startsWith (x # xs) (js ''null'')" "drop 4 ((x # xs) @ [c]) = drop 4 (x # xs) @ [c]"
        by (rule literal_snoc[OF ct(3) lt(3) n(3)])+
      have b: "\<not> startsWith (x # xs) (js ''true'')" "\<not> startsWith (x # xs) (js ''false'')"
        using n(1,2) startsWith_append[of "x # xs" _ "[c]"] by blast+
      from a b word n show ?thesis by (simp add: nextToken_def)
    qed
  qed
qed

declare lexJSON.simps [simp del]

lemma lexJSON_Nil: "dropWhile isJsonWs s = [] \<Longrightarrow> lexJSON s = Some []"
  by (simp only: lexJSON.simps[of s] list.case)

lemma lexJSON_Cons:
  "dropWhile isJsonWs s = x # xs \<Longrightarrow>
   lexJSON s =
     (case nextToken (x # xs) of
        None \<Rightarrow> None
      | Some (t, rest) \<Rightarrow> map_option ((#) t) (lexJSON rest))"
  by (simp only: lexJSON.simps[of s] list.case)

lemma lexJSON_leading:
  assumes "isWhiteSpace c" and "lexJSON (c # s) = Some toks"
  shows "lexJSON s = Some toks"
proof (cases "isJsonWs c")
  case True
  then have d: "dropWhile isJsonWs (c # s) = dropWhile isJsonWs s" by simp
  have "lexJSON (c # s) = lexJSON s"
    by (simp only: lexJSON.simps[of "c # s"] lexJSON.simps[of s] d)
  with assms show ?thesis by simp
next
  case False
  then have d: "dropWhile isJsonWs (c # s) = c # s" by simp
  have "lexJSON (c # s) = None"
    using lexJSON_Cons[OF d] nextToken_whitespace[OF assms(1), of s] by simp
  with assms show ?thesis by simp
qed

lemma lexJSON_trailing:
  "isWhiteSpace c \<Longrightarrow> lexJSON (s @ [c]) = Some toks \<Longrightarrow> lexJSON s = Some toks"
proof (induction s arbitrary: toks rule: lexJSON.induct)
  case (1 s)
  show ?case
  proof (cases "dropWhile isJsonWs s")
    case Nil
    then have all: "\<forall>x\<in>set s. isJsonWs x" by (simp add: dropWhile_eq_Nil_conv)
    then have d: "dropWhile isJsonWs (s @ [c]) = dropWhile isJsonWs [c]"
      by (simp add: dropWhile_append2)
    show ?thesis
    proof (cases "isJsonWs c")
      case True
      with d have "dropWhile isJsonWs (s @ [c]) = []" by simp
      then have "lexJSON (s @ [c]) = Some []" by (rule lexJSON_Nil)
      with "1.prems" have "toks = []" by simp
      with lexJSON_Nil[OF Nil] show ?thesis by simp
    next
      case False
      with d have "dropWhile isJsonWs (s @ [c]) = [c]" by simp
      then have "lexJSON (s @ [c]) = None"
        using nextToken_whitespace[OF "1.prems"(1), of "[]"] by (simp add: lexJSON_Cons)
      with "1.prems" show ?thesis by simp
    qed
  next
    case (Cons x xs)
    then have "dropWhile isJsonWs s \<noteq> []" by simp
    then obtain y where y: "y \<in> set s" "\<not> isJsonWs y"
      by (auto simp: dropWhile_eq_Nil_conv)
    have d: "dropWhile isJsonWs (s @ [c]) = x # (xs @ [c])"
      using dropWhile_append1[of y s isJsonWs "[c]"] y Cons by simp
    have e: "lexJSON (s @ [c]) =
        (case nextToken (x # (xs @ [c])) of
           None \<Rightarrow> None
         | Some (t, rest) \<Rightarrow> map_option ((#) t) (lexJSON rest))"
      by (rule lexJSON_Cons[OF d])
    obtain t rest where n: "nextToken (x # (xs @ [c])) = Some (t, rest)"
      using e "1.prems"(2) by (cases "nextToken (x # (xs @ [c]))") auto
    with e "1.prems"(2) have "map_option ((#) t) (lexJSON rest) = Some toks" by simp
    then obtain toks' where
      l: "lexJSON rest = Some toks'" and tk: "toks = t # toks'"
      by (cases "lexJSON rest") auto
    from n have n': "nextToken ((x # xs) @ [c]) = Some (t, rest)" by simp
    from nextToken_snoc[OF "1.prems"(1) n'] obtain rest0 where
      r: "rest = rest0 @ [c]" "nextToken (x # xs) = Some (t, rest0)" by blast
    from l r(1) have "lexJSON (rest0 @ [c]) = Some toks'" by simp
    from "1.IH"[OF Cons r(2) refl "1.prems"(1) this]
    have "lexJSON rest0 = Some toks'" .
    with lexJSON_Cons[OF Cons] r(2) tk show ?thesis by simp
  qed
qed

lemma lexJSON_trimStart: "lexJSON s = Some toks \<Longrightarrow> lexJSON (trimStart s) = Some toks"
proof (induction s)
  case Nil
  then show ?case by (simp add: trimStart_def)
next
  case (Cons c s)
  show ?case
  proof (cases "isWhiteSpace c")
    case True
    then have "trimStart (c # s) = trimStart s" by (simp add: trimStart_def)
    moreover have "lexJSON s = Some toks" using True Cons.prems by (rule lexJSON_leading)
    ultimately show ?thesis using Cons.IH by simp
  next
    case False
    then have "trimStart (c # s) = c # s" by (simp add: trimStart_def)
    with Cons.prems show ?thesis by simp
  qed
qed

lemma lexJSON_trimEnd: "lexJSON s = Some toks \<Longrightarrow> lexJSON (trimEnd s) = Some toks"
proof (induction s rule: rev_induct)
  case Nil
  then show ?case by (simp add: trimEnd_def)
next
  case (snoc c s)
  show ?case
  proof (cases "isWhiteSpace c")
    case True
    then have "trimEnd (s @ [c]) = trimEnd s" by (simp add: trimEnd_def)
    moreover have "lexJSON s = Some toks" using True snoc.prems by (rule lexJSON_trailing)
    ultimately show ?thesis using snoc.IH by simp
  next
    case False
    then have "trimEnd (s @ [c]) = s @ [c]" by (simp add: trimEnd_def)
    with snoc.prems show ?thesis by simp
  qed
qed

lemma JSON_parse_trim:
  "JSON_parse numberOf s = Some v \<Longrightarrow> JSON_parse numberOf (trim s) = Some v"
proof -
  assume a: "JSON_parse numberOf s = Some v"
  then obtain toks where t: "lexJSON s = Some toks"
    by (cases "lexJSON s") (auto simp: JSON_parse_def)
  then have "lexJSON (trimStart s) = Some toks" by (rule lexJSON_trimStart)
  then have "lexJSON (trimEnd (trimStart s)) = Some toks" by (rule lexJSON_trimEnd)
  then have "lexJSON (trim s) = Some toks" by (simp add: trim_def)
  with a t show ?thesis by (simp add: JSON_parse_def)
qed

lemma trim_Cons_whitespace: "isWhiteSpace c \<Longrightarrow> trim (c # s) = trim s"
  by (simp add: trim_def trimStart_def)

lemma trim_snoc_whitespace: "isWhiteSpace c \<Longrightarrow> trim (s @ [c]) = trim s"
proof -
  assume c: "isWhiteSpace c"
  show ?thesis
  proof (cases "trimStart s = []")
    case True
    then have "\<forall>x\<in>set s. isWhiteSpace x" by (simp add: trimStart_def dropWhile_eq_Nil_conv)
    then have "trimStart (s @ [c]) = []" using c by (simp add: trimStart_def)
    with True show ?thesis by (simp add: trim_def)
  next
    case False
    then have "trimStart (s @ [c]) = trimStart s @ [c]" by (rule trimStart_append)
    then show ?thesis using c by (simp add: trim_def trimEnd_def)
  qed
qed

lemma stripFences_fenceWrap: "stripFences (fenceWrap s) = trim s"
proof -
  let ?w = "fenceWrap s"
  have nl: "js ''\<newline>'' = [0x0A]" by (simp add: js_def)
  have lf: "isWhiteSpace 0x0A" by (simp add: isWhiteSpace_def isLineTerminator_def)
  have w: "?w = js ''```json'' @ ([0x0A] @ s @ [0x0A] @ js ''```'')"
    by (simp add: fenceWrap_def nl)
  have "?w \<noteq> []" "hd ?w = 0x60" "last ?w = 0x60"
    by (simp_all add: fenceWrap_def js_def)
  then have t: "trim ?w = ?w" by (intro trim_id) (simp add: backtick_not_space)
  have c1: "startsWith ?w (js ''```json'')" by (simp add: startsWith_prefix w)
  have d1: "sliceFrom 7 ?w = [0x0A] @ s @ [0x0A] @ js ''```''"
    by (simp add: sliceFrom_def w)
  have c2: "\<not> startsWith ([0x0A] @ s @ [0x0A] @ js ''```'') (js ''```'')"
    by (simp add: startsWith_def js_def)
  have c3: "endsWith ([0x0A] @ s @ [0x0A] @ js ''```'') (js ''```'')"
    by (simp add: endsWith_suffix suffix_def)
  have d3: "sliceDropLast 3 ([0x0A] @ s @ [0x0A] @ js ''```'') = (0x0A # s) @ [0x0A]"
    by (simp add: sliceDropLast_def)
  have "stripFences ?w = trim ((0x0A # s) @ [0x0A])"
    by (simp only: stripFences_def Let_def t c1 d1 c2 c3 d3 if_True if_False)
  also have "\<dots> = trim s" using lf by (simp only: trim_snoc_whitespace trim_Cons_whitespace)
  finally show ?thesis .
qed

text \<open>
  C2. Round trip through the response reconciler: if a JSON text \<open>s\<close> parses to \<open>v\<close>,
  then \<open>s\<close> wrapped as \<open>```json\<close>, a line feed, \<open>s\<close>, a line feed and \<open>```\<close> is stripped
  and parsed by skinAnalysis to that same \<open>v\<close>, which is the body of its 200 answer.
\<close>

theorem fenced_json_round_trip:
  "JSON_parse numberOf s = Some v \<Longrightarrow>
   JSON_parse numberOf (stripFences (fenceWrap s)) = Some v \<and>
   reconcile numberOf (fenceWrap s) = \<lparr>status = 200, json = AnalysisResult v\<rparr>"
proof -
  assume "JSON_parse numberOf s = Some v"
  then have p: "JSON_parse numberOf (stripFences (fenceWrap s)) = Some v"
    by (simp add: stripFences_fenceWrap JSON_parse_trim)
  have "fenceWrap s \<noteq> []" by (simp add: fenceWrap_def)
  with p show ?thesis by (simp add: reconcile_def)
qed

theorem fenced_json_round_trip_witness:
  "JSON_parse id (js ''{\"overallScore\": 85, \"concerns\": [\"dryness\"]}'') =
     Some (JObj [(js ''overallScore'', JNum (js ''85'')),
                 (js ''concerns'', JArr [JStr (js ''dryness'')])]) \<and>
   reconcile id (fenceWrap (js ''{\"overallScore\": 85, \"concerns\": [\"dryness\"]}'')) =
     \<lparr>status = 200,
      json = AnalysisResult
               (JObj [(js ''overallScore'', JNum (js ''85'')),
                      (js ''concerns'', JArr [JStr (js ''dryness'')])])\<rparr>"
proof -
  have a: "JSON_parse id (js ''{\"overallScore\": 85, \"concerns\": [\"dryness\"]}'') =
     Some (JObj [(js ''overallScore'', JNum (js ''85'')),
                 (js ''concerns'', JArr [JStr (js ''dryness'')])])"
    by code_simp
  from a fenced_json_round_trip[OF a] show ?thesis by simp
qed

section \<open>Properties of the image normalizer\<close>

lemma sameLetters_length: "sameLetters a b \<Longrightarrow> length a = length b"
  unfolding sameLetters_def by (rule map_eq_imp_length_eq)

lemma matchLiteral_Some:
  "matchLiteral lit s = Some r \<longleftrightarrow> (\<exists>h. s = h @ r \<and> sameLetters h lit)"
proof
  assume "matchLiteral lit s = Some r"
  then have a: "length lit \<le> length s" and b: "sameLetters (take (length lit) s) lit"
    and c: "r = drop (length lit) s"
    by (auto simp: matchLiteral_def sameLetters_def split: if_splits)
  have "s = take (length lit) s @ r" using c by simp
  with b show "\<exists>h. s = h @ r \<and> sameLetters h lit" by blast
next
  assume "\<exists>h. s = h @ r \<and> sameLetters h lit"
  then obtain h where h: "s = h @ r" "sameLetters h lit" by blast
  then have "length h = length lit" by (simp add: sameLetters_length)
  with h show "matchLiteral lit s = Some r"
    by (simp add: matchLiteral_def sameLetters_def)
qed

lemma matchTail_Some:
  "matchTail s = Some p \<longleftrightarrow>
     (\<exists>sep. s = sep @ p \<and> sameLetters sep (js '';base64,'') \<and> p \<noteq> [] \<and>
        list_all (\<lambda>c. \<not> isLineTerminator c) p)"
  by (auto simp: matchTail_def matchPayload_def matchLiteral_Some Option.bind_eq_Some_conv
      split: if_splits)

lemma matchTail_None: "matchTail s = None \<longleftrightarrow> \<not> markerThenPayload s"
proof -
  have "markerThenPayload s \<longleftrightarrow> (\<exists>p. matchTail s = Some p)"
    unfolding markerThenPayload_def matchTail_Some by blast
  then show ?thesis by auto
qed

lemma matchMime_Some:
  "matchMime acc r = Some (m, p) \<longleftrightarrow> (\<exists>m'. m = acc @ m' \<and> lazyCapture r m' p)"
proof (induction r arbitrary: acc)
  case Nil
  then show ?case by (simp add: lazyCapture_def)
next
  case (Cons c cs)
  show ?case
  proof (cases "isLineTerminator c")
    case True
    have "\<not> lazyCapture (c # cs) m' p" for m'
    proof
      assume "lazyCapture (c # cs) m' p"
      then obtain sep where "c # cs = m' @ sep @ p" "m' \<noteq> []"
        "list_all (\<lambda>c. \<not> isLineTerminator c) m'"
        unfolding lazyCapture_def by blast
      then show False using True by (cases m') auto
    qed
    then show ?thesis using True by simp
  next
    case nlt: False
    show ?thesis
    proof (cases "matchTail cs")
      case (Some payload)
      then obtain sep where sep: "cs = sep @ payload" "sameLetters sep (js '';base64,'')" "payload \<noteq> []"
        "list_all (\<lambda>c. \<not> isLineTerminator c) payload"
        using matchTail_Some by blast
      have mt: "markerThenPayload cs" using Some matchTail_None[of cs] by simp
      have L: "lazyCapture (c # cs) [c] payload"
        unfolding lazyCapture_def using sep nlt by auto
      have R: "m' = [c] \<and> p = payload" if "lazyCapture (c # cs) m' p" for m' p
      proof -
        from that obtain sep' where s': "c # cs = m' @ sep' @ p" "m' \<noteq> []" "sameLetters sep' (js '';base64,'')"
          and short: "\<not> (\<exists>k. 0 < k \<and> k < length m' \<and> markerThenPayload (drop k m' @ sep' @ p))"
          unfolding lazyCapture_def by blast
        from s' obtain m'' where m'': "m' = c # m''" "cs = m'' @ sep' @ p"
          by (cases m') auto
        have "m'' = []"
        proof (rule ccontr)
          assume "m'' \<noteq> []"
          then have "0 < (1::nat) \<and> 1 < length m'" using m'' by simp
          moreover have "markerThenPayload (drop 1 m' @ sep' @ p)" using m'' mt by simp
          ultimately show False using short by blast
        qed
        with m'' have "m' = [c]" "cs = sep' @ p" by auto
        moreover have "length sep' = length sep" using s'(3) sep(2) by (simp add: sameLetters_length)
        ultimately show ?thesis using sep(1) by auto
      qed
      have step: "matchMime acc (c # cs) = Some (acc @ [c], payload)"
        using Some nlt by simp
      show ?thesis
      proof
        assume "matchMime acc (c # cs) = Some (m, p)"
        with step have "m = acc @ [c]" "p = payload" by simp_all
        with L show "\<exists>m'. m = acc @ m' \<and> lazyCapture (c # cs) m' p" by blast
      next
        assume "\<exists>m'. m = acc @ m' \<and> lazyCapture (c # cs) m' p"
        then obtain m' where "m = acc @ m'" "lazyCapture (c # cs) m' p" by blast
        with R[of m' p] have "m = acc @ [c]" "p = payload" by simp_all
        with step show "matchMime acc (c # cs) = Some (m, p)" by simp
      qed
    next
      case None
      have nm: "\<not> markerThenPayload cs" using None matchTail_None[of cs] by simp
      have eq: "matchMime acc (c # cs) = matchMime (acc @ [c]) cs" using None nlt by simp
      have "(\<exists>m'. m = (acc @ [c]) @ m' \<and> lazyCapture cs m' p) \<longleftrightarrow> (\<exists>m'. m = acc @ m' \<and> lazyCapture (c # cs) m' p)"
      proof
        assume "\<exists>m'. m = (acc @ [c]) @ m' \<and> lazyCapture cs m' p"
        then obtain m' where m': "m = (acc @ [c]) @ m'" "lazyCapture cs m' p" by blast
        then obtain sep where sep: "cs = m' @ sep @ p" "sameLetters sep (js '';base64,'')"
          "m' \<noteq> []" "p \<noteq> []" "list_all (\<lambda>c. \<not> isLineTerminator c) m'"
          "list_all (\<lambda>c. \<not> isLineTerminator c) p"
          and short: "\<not> (\<exists>k. 0 < k \<and> k < length m' \<and> markerThenPayload (drop k m' @ sep @ p))"
          unfolding lazyCapture_def by blast
        have "\<not> (\<exists>k. 0 < k \<and> k < length (c # m') \<and> markerThenPayload (drop k (c # m') @ sep @ p))"
        proof
          assume "\<exists>k. 0 < k \<and> k < length (c # m') \<and> markerThenPayload (drop k (c # m') @ sep @ p)"
          then obtain k where k: "0 < k" "k < length (c # m')" "markerThenPayload (drop k (c # m') @ sep @ p)" by blast
          then obtain j where j: "k = Suc j" by (cases k) auto
          show False
          proof (cases j)
            case 0
            then show ?thesis using k j nm sep(1) by simp
          next
            case (Suc i)
            then show ?thesis using k j short by auto
          qed
        qed
        then have "lazyCapture (c # cs) (c # m') p"
          unfolding lazyCapture_def using sep nlt by auto
        then show "\<exists>m'. m = acc @ m' \<and> lazyCapture (c # cs) m' p" using m'(1) by auto
      next
        assume "\<exists>m'. m = acc @ m' \<and> lazyCapture (c # cs) m' p"
        then obtain m' where m': "m = acc @ m'" "lazyCapture (c # cs) m' p" by blast
        then obtain sep where sep: "c # cs = m' @ sep @ p" "sameLetters sep (js '';base64,'')"
          "m' \<noteq> []" "p \<noteq> []" "list_all (\<lambda>c. \<not> isLineTerminator c) m'"
          "list_all (\<lambda>c. \<not> isLineTerminator c) p"
          and short: "\<not> (\<exists>k. 0 < k \<and> k < length m' \<and> markerThenPayload (drop k m' @ sep @ p))"
          unfolding lazyCapture_def by blast
        from sep obtain m'' where m'': "m' = c # m''" "cs = m'' @ sep @ p" by (cases m') auto
        have ne: "m'' \<noteq> []"
        proof
          assume "m'' = []"
          then have "markerThenPayload cs" unfolding markerThenPayload_def using m'' sep by auto
          then show False using nm by simp
        qed
        have "\<not> (\<exists>k. 0 < k \<and> k < length m'' \<and> markerThenPayload (drop k m'' @ sep @ p))"
        proof
          assume "\<exists>k. 0 < k \<and> k < length m'' \<and> markerThenPayload (drop k m'' @ sep @ p)"
          then obtain k where "0 < k" "k < length m''" "markerThenPayload (drop k m'' @ sep @ p)" by blast
          then have "0 < Suc k \<and> Suc k < length m' \<and> markerThenPayload (drop (Suc k) m' @ sep @ p)"
            using m'' by simp
          then show False using short by blast
        qed
        then have "lazyCapture cs m'' p"
          unfolding lazyCapture_def using sep m'' ne by auto
        then show "\<exists>m'. m = (acc @ [c]) @ m' \<and> lazyCapture cs m' p" using m'(1) m''(1) by auto
      qed
      then show ?thesis using eq Cons.IH[of "acc @ [c]"] by simp
    qed
  qed
qed

lemma dataUrlMatch_iff: "dataUrlMatch s = Some (m, p) \<longleftrightarrow> isDataUrl s m p"
proof -
  have "isDataUrl s m p \<longleftrightarrow>
      (\<exists>r. matchLiteral (js ''data:'') s = Some r \<and> matchMime [] r = Some (m, p))"
    unfolding isDataUrl_def by (simp add: matchLiteral_Some matchMime_Some) blast
  also have "\<dots> \<longleftrightarrow> dataUrlMatch s = Some (m, p)"
    by (auto simp: dataUrlMatch_def Option.bind_eq_Some_conv)
  finally show ?thesis by simp
qed

lemma dataUrlMatch_None: "dataUrlMatch s = None \<longleftrightarrow> (\<forall>m p. \<not> isDataUrl s m p)"
proof -
  have "dataUrlMatch s = None \<longleftrightarrow> (\<forall>m p. dataUrlMatch s \<noteq> Some (m, p))"
    by (cases "dataUrlMatch s") auto
  then show ?thesis by (simp add: dataUrlMatch_iff)
qed

text \<open>
  C1, as the code has it. The normalizer trims the input first and matches the data-URL
  pattern against the trimmed string: when the trimmed input is
  \<open>data:<mime>;base64,<payload>\<close> (scheme and marker in any letter case, shortest
  mime) the result is exactly that mime and that payload; when the trimmed input is no
  such string the result is \<open>image/jpeg\<close> with the trimmed input. The result is a plain
  record: no string makes the function fail.
\<close>

theorem normalizeBase64_matches_trimmed:
  "(isDataUrl (trim input) mime payload \<longrightarrow>
      normalizeBase64 input = \<lparr>mimeType = mime, base64 = payload\<rparr>) \<and>
   ((\<forall>m p. \<not> isDataUrl (trim input) m p) \<longrightarrow>
      normalizeBase64 input = \<lparr>mimeType = js ''image/jpeg'', base64 = trim input\<rparr>)"
proof (intro conjI impI)
  assume "isDataUrl (trim input) mime payload"
  then have "dataUrlMatch (trim input) = Some (mime, payload)"
    by (simp add: dataUrlMatch_iff)
  then show "normalizeBase64 input = \<lparr>mimeType = mime, base64 = payload\<rparr>"
    by (simp add: normalizeBase64_def)
next
  assume "\<forall>m p. \<not> isDataUrl (trim input) m p"
  then have "dataUrlMatch (trim input) = None"
    by (simp add: dataUrlMatch_None)
  then show "normalizeBase64 input = \<lparr>mimeType = js ''image/jpeg'', base64 = trim input\<rparr>"
    by (simp add: normalizeBase64_def)
qed

theorem normalizeBase64_matches_trimmed_witness:
  "isDataUrl (trim (js '' DATA:image/png;Base64,QUJD\<newline>'')) (js ''image/png'') (js ''QUJD'') \<and>
   normalizeBase64 (js '' DATA:image/png;Base64,QUJD\<newline>'') =
     \<lparr>mimeType = js ''image/png'', base64 = js ''QUJD''\<rparr> \<and>
   (\<forall>m p. \<not> isDataUrl (trim (js '' QUJD '')) m p) \<and>
   normalizeBase64 (js '' QUJD '') = \<lparr>mimeType = js ''image/jpeg'', base64 = js ''QUJD''\<rparr>"
proof -
  have "dataUrlMatch (trim (js '' DATA:image/png;Base64,QUJD\<newline>'')) =
      Some (js ''image/png'', js ''QUJD'')"
    by code_simp
  then have a: "isDataUrl (trim (js '' DATA:image/png;Base64,QUJD\<newline>'')) (js ''image/png'') (js ''QUJD'')"
    by (simp add: dataUrlMatch_iff)
  have "dataUrlMatch (trim (js '' QUJD '')) = None"
    by code_simp
  then have b: "\<forall>m p. \<not> isDataUrl (trim (js '' QUJD '')) m p"
    by (simp add: dataUrlMatch_None)
  have t: "trim (js '' QUJD '') = js ''QUJD''"
    by code_simp
  from a b t show ?thesis
    using normalizeBase64_matches_trimmed
      [of "js '' DATA:image/png;Base64,QUJD\<newline>''" "js ''image/png''" "js ''QUJD''"]
      normalizeBase64_matches_trimmed [of "js '' QUJD ''"]
    by simp
qed

text \<open>
  The claim as written decides on the input itself. A data URL behind a leading space is
  not the pattern (the pattern is anchored at the first code unit), yet the result is
  not the \<open>image/jpeg\<close> default; and an input that is the pattern, with a payload
  ending in a space, comes back with another payload.
\<close>

theorem normalizeBase64_untrimmed_counterexample:
  "dataUrlMatch (js '' data:image/png;base64,QUJD'') = None \<and>
   normalizeBase64 (js '' data:image/png;base64,QUJD'') \<noteq>
     \<lparr>mimeType = js ''image/jpeg'', base64 = trim (js '' data:image/png;base64,QUJD'')\<rparr> \<and>
   dataUrlMatch (js ''data:image/png;base64,QUJD '') = Some (js ''image/png'', js ''QUJD '') \<and>
   normalizeBase64 (js ''data:image/png;base64,QUJD '') \<noteq>
     \<lparr>mimeType = js ''image/png'', base64 = js ''QUJD ''\<rparr>"
  by code_simp

section \<open>Properties of the prompt builder\<close>

lemma includes_part: "includesStr (p @ l @ x @ s) (l @ x)"
proof -
  have "p @ l @ x @ s = p @ (l @ x) @ s" by simp
  then show ?thesis unfolding includesStr_def by (metis sublist_appendI)
qed

lemma includes_label_only: "includesStr p (l @ x) \<Longrightarrow> includesStr p l"
  unfolding includesStr_def
  by (meson sublist_append_rightI sublist_order.order_trans)

lemma userTemplateEn_includes:
  "includesStr (userTemplateEn skin conc age sun routine photo) (skinLabelEn @ skin)"
  "includesStr (userTemplateEn skin conc age sun routine photo) (concernsLabelEn @ conc)"
  "includesStr (userTemplateEn skin conc age sun routine photo) (ageLabelEn @ age)"
  "includesStr (userTemplateEn skin conc age sun routine photo) (sunLabelEn @ sun)"
  "includesStr (userTemplateEn skin conc age sun routine photo) (routineLabelEn @ routine)"
proof -
  show "includesStr (userTemplateEn skin conc age sun routine photo) (skinLabelEn @ skin)"
    unfolding userTemplateEn_def by (rule includes_part)
  show "includesStr (userTemplateEn skin conc age sun routine photo) (concernsLabelEn @ conc)"
    using includes_part[of "openingEn @ skinLabelEn @ skin @ js ''\<newline>''" concernsLabelEn conc]
    by (simp add: userTemplateEn_def)
  show "includesStr (userTemplateEn skin conc age sun routine photo) (ageLabelEn @ age)"
    using includes_part[of "openingEn @ skinLabelEn @ skin @ js ''\<newline>'' @ concernsLabelEn @
        conc @ js ''\<newline>''" ageLabelEn age]
    by (simp add: userTemplateEn_def)
  show "includesStr (userTemplateEn skin conc age sun routine photo) (sunLabelEn @ sun)"
    using includes_part[of "openingEn @ skinLabelEn @ skin @ js ''\<newline>'' @ concernsLabelEn @
        conc @ js ''\<newline>'' @ ageLabelEn @ age @ js ''\<newline>''" sunLabelEn sun]
    by (simp add: userTemplateEn_def)
  show "includesStr (userTemplateEn skin conc age sun routine photo) (routineLabelEn @ routine)"
    using includes_part[of "openingEn @ skinLabelEn @ skin @ js ''\<newline>'' @ concernsLabelEn @
        conc @ js ''\<newline>'' @ ageLabelEn @ age @ js ''\<newline>'' @ sunLabelEn @ sun @
        js ''\<newline>''" routineLabelEn routine]
    by (simp add: userTemplateEn_def)
qed

lemma userTemplateFr_includes:
  "includesStr (userTemplateFr skin conc age sun routine photo) (skinLabelFr @ skin)"
  "includesStr (userTemplateFr skin conc age sun routine photo) (concernsLabelFr @ conc)"
  "includesStr (userTemplateFr skin conc age sun routine photo) (ageLabelFr @ age)"
  "includesStr (userTemplateFr skin conc age sun routine photo) (sunLabelFr @ sun)"
  "includesStr (userTemplateFr skin conc age sun routine photo) (routineLabelFr @ routine)"
proof -
  show "includesStr (userTemplateFr skin conc age sun routine photo) (skinLabelFr @ skin)"
    unfolding userTemplateFr_def by (rule includes_part)
  show "includesStr (userTemplateFr skin conc age sun routine photo) (concernsLabelFr @ conc)"
    using includes_part[of "openingFr @ skinLabelFr @ skin @ js ''\<newline>''" concernsLabelFr conc]
    by (simp add: userTemplateFr_def)
  show "includesStr (userTemplateFr skin conc age sun routine photo) (ageLabelFr @ age)"
    using includes_part[of "openingFr @ skinLabelFr @ skin @ js ''\<newline>'' @ concernsLabelFr @
        conc @ js ''\<newline>''" ageLabelFr age]
    by (simp add: userTemplateFr_def)
  show "includesStr (userTemplateFr skin conc age sun routine photo) (sunLabelFr @ sun)"
    using includes_part[of "openingFr @ skinLabelFr @ skin @ js ''\<newline>'' @ concernsLabelFr @
        conc @ js ''\<newline>'' @ ageLabelFr @ age @ js ''\<newline>''" sunLabelFr sun]
    by (simp add: userTemplateFr_def)
  show "includesStr (userTemplateFr skin conc age sun routine photo) (routineLabelFr @ routine)"
    using includes_part[of "openingFr @ skinLabelFr @ skin @ js ''\<newline>'' @ concernsLabelFr @
        conc @ js ''\<newline>'' @ ageLabelFr @ age @ js ''\<newline>'' @ sunLabelFr @ sun @
        js ''\<newline>''" routineLabelFr routine]
    by (simp add: userTemplateFr_def)
qed

text \<open>The photo line sits right before the closing block.\<close>

lemma photo_slot:
  assumes "notice \<noteq> []" and "last notice \<noteq> 0x0A"
  shows "endsWith (before @ js ''\<newline>'' @ (if t then notice else []) @ closing) (notice @ closing) \<longleftrightarrow> t"
proof (cases t)
  case True
  have "suffix (notice @ closing) ((before @ js ''\<newline>'') @ notice @ closing)"
    by (rule suffix_appendI) simp
  with True show ?thesis by (simp add: endsWith_suffix)
next
  case False
  have nl: "js ''\<newline>'' = [0x0A]" by (simp add: js_def)
  have "\<not> suffix (notice @ closing) (before @ [0x0A] @ closing)"
  proof
    assume "suffix (notice @ closing) (before @ [0x0A] @ closing)"
    then obtain q where "before @ [0x0A] @ closing = q @ notice @ closing"
      by (auto simp: suffix_def)
    then have "(before @ [0x0A]) @ closing = (q @ notice) @ closing" by simp
    then have "before @ [0x0A] = q @ notice" by (simp only: append_same_eq)
    then have "last (before @ [0x0A]) = last (q @ notice)" by simp
    with assms show False by simp
  qed
  with False show ?thesis by (simp add: endsWith_suffix nl)
qed

lemma photo_notices:
  "photoNoticeEn \<noteq> []" "last photoNoticeEn \<noteq> 0x0A"
  "photoNoticeFr \<noteq> []" "last photoNoticeFr \<noteq> 0x0A"
  by (simp_all add: photoNoticeEn_def photoNoticeFr_def js_def)

lemma userTemplateEn_photo:
  "endsWith (userTemplateEn skin conc age sun routine (photoLine pd photoNoticeEn))
     (photoNoticeEn @ closingEn) \<longleftrightarrow> truthy pd"
  using photo_slot[OF photo_notices(1,2),
      of "openingEn @ skinLabelEn @ skin @ js ''\<newline>'' @ concernsLabelEn @ conc @
          js ''\<newline>'' @ ageLabelEn @ age @ js ''\<newline>'' @ sunLabelEn @ sun @
          js ''\<newline>'' @ routineLabelEn @ routine" "truthy pd" closingEn]
  by (simp add: userTemplateEn_def photoLine_def)

lemma userTemplateFr_photo:
  "endsWith (userTemplateFr skin conc age sun routine (photoLine pd photoNoticeFr))
     (photoNoticeFr @ closingFr) \<longleftrightarrow> truthy pd"
  using photo_slot[OF photo_notices(3,4),
      of "openingFr @ skinLabelFr @ skin @ js ''\<newline>'' @ concernsLabelFr @ conc @
          js ''\<newline>'' @ ageLabelFr @ age @ js ''\<newline>'' @ sunLabelFr @ sun @
          js ''\<newline>'' @ routineLabelFr @ routine" "truthy pd" closingFr]
  by (simp add: userTemplateFr_def photoLine_def)

lemma getProp_profileValue:
  "getProp (profileValue pr) (js ''skinType'') = absentOr (skinType pr) JStr"
  "getProp (profileValue pr) (js ''concerns'') = absentOr (concerns pr) (\<lambda>xs. JArr (map JStr xs))"
  "getProp (profileValue pr) (js ''ageRange'') = absentOr (ageRange pr) JStr"
  "getProp (profileValue pr) (js ''sunExposure'') = absentOr (sunExposure pr) JStr"
  "getProp (profileValue pr) (js ''currentRoutine'') = absentOr (currentRoutine pr) JStr"
  by (simp_all add: profileValue_def property_def absentOr_def split: option.splits)

lemma fieldText_absentOr:
  "fieldText (absentOr f JStr) d =
     Some (case f of None \<Rightarrow> d | Some v \<Rightarrow> if v = [] then d else v)"
  by (simp add: fieldText_def absentOr_def orElse_def split: option.splits)

lemma those_strings:
  "those (map ((\<lambda>x. if nullish x then Some [] else toStr x) \<circ> JStr) vs) = Some vs"
  by (induction vs) simp_all

lemma concernsText_absentOr:
  "concernsText (absentOr f (\<lambda>xs. JArr (map JStr xs))) d =
     Some (case f of None \<Rightarrow> d | Some vs \<Rightarrow> joinParts (js '', '') vs)"
  by (simp add: concernsText_def fieldText_def absentOr_def orElse_def arrayJoin_def
      those_strings split: option.splits)

lemma userPrompt_profileValue:
  "userPrompt (JStr (js ''fr'')) (profileValue pr) pd =
     Some (userTemplateFr
       (case skinType pr of None \<Rightarrow> notSpecifiedFr | Some v \<Rightarrow> if v = [] then notSpecifiedFr else v)
       (case concerns pr of None \<Rightarrow> noConcernsFr | Some vs \<Rightarrow> joinParts (js '', '') vs)
       (case ageRange pr of None \<Rightarrow> notSpecifiedFr | Some v \<Rightarrow> if v = [] then notSpecifiedFr else v)
       (case sunExposure pr of None \<Rightarrow> notSpecifiedFr | Some v \<Rightarrow> if v = [] then notSpecifiedFr else v)
       (case currentRoutine pr of None \<Rightarrow> notSpecifiedFr | Some v \<Rightarrow> if v = [] then notSpecifiedFr else v)
       (photoLine pd photoNoticeFr))"
  "userPrompt (JStr (js ''en'')) (profileValue pr) pd =
     Some (userTemplateEn
       (case skinType pr of None \<Rightarrow> notSpecifiedEn | Some v \<Rightarrow> if v = [] then notSpecifiedEn else v)
       (case concerns pr of None \<Rightarrow> noConcernsEn | Some vs \<Rightarrow> joinParts (js '', '') vs)
       (case ageRange pr of None \<Rightarrow> notSpecifiedEn | Some v \<Rightarrow> if v = [] then notSpecifiedEn else v)
       (case sunExposure pr of None \<Rightarrow> notSpecifiedEn | Some v \<Rightarrow> if v = [] then notSpecifiedEn else v)
       (case currentRoutine pr of None \<Rightarrow> notSpecifiedEn | Some v \<Rightarrow> if v = [] then notSpecifiedEn else v)
       (photoLine pd photoNoticeEn))"
  by (simp_all add: userPrompt_def getProp_profileValue fieldText_absentOr concernsText_absentOr)

lemma shown_field:
  assumes "includesStr p (l @ (case f of None \<Rightarrow> d | Some v \<Rightarrow> if v = [] then d else v))"
  shows "(f = None \<longrightarrow> includesStr p (l @ d)) \<and> (\<forall>v. f = Some v \<longrightarrow> includesStr p (l @ v))"
proof (cases f)
  case None
  with assms show ?thesis by simp
next
  case (Some v)
  show ?thesis
  proof (cases "v = []")
    case True
    with assms Some have "includesStr p l" by (simp add: includes_label_only)
    with Some True show ?thesis by simp
  next
    case False
    with assms Some show ?thesis by simp
  qed
qed

lemma shown_concerns:
  assumes "includesStr p (l @ (case f of None \<Rightarrow> d | Some vs \<Rightarrow> joinParts sep vs))"
  shows "(f = None \<longrightarrow> includesStr p (l @ d)) \<and>
         (\<forall>vs. f = Some vs \<longrightarrow> includesStr p (l @ joinParts sep vs))"
  using assms by (cases f) simp_all

lemma userPromptEn_fields:
  "\<exists>p. userPrompt (JStr (js ''en'')) (profileValue pr) pd = Some p \<and>
      (skinType pr = None \<longrightarrow> includesStr p (skinLabelEn @ notSpecifiedEn)) \<and>
      (\<forall>v. skinType pr = Some v \<longrightarrow> includesStr p (skinLabelEn @ v)) \<and>
      (concerns pr = None \<longrightarrow> includesStr p (concernsLabelEn @ noConcernsEn)) \<and>
      (\<forall>vs. concerns pr = Some vs \<longrightarrow> includesStr p (concernsLabelEn @ joinParts (js '', '') vs)) \<and>
      (ageRange pr = None \<longrightarrow> includesStr p (ageLabelEn @ notSpecifiedEn)) \<and>
      (\<forall>v. ageRange pr = Some v \<longrightarrow> includesStr p (ageLabelEn @ v)) \<and>
      (sunExposure pr = None \<longrightarrow> includesStr p (sunLabelEn @ notSpecifiedEn)) \<and>
      (\<forall>v. sunExposure pr = Some v \<longrightarrow> includesStr p (sunLabelEn @ v)) \<and>
      (currentRoutine pr = None \<longrightarrow> includesStr p (routineLabelEn @ notSpecifiedEn)) \<and>
      (\<forall>v. currentRoutine pr = Some v \<longrightarrow> includesStr p (routineLabelEn @ v)) \<and>
      (endsWith p (photoNoticeEn @ closingEn) \<longleftrightarrow> truthy pd)"
proof -
  define p where "p = userTemplateEn
       (case skinType pr of None \<Rightarrow> notSpecifiedEn | Some v \<Rightarrow> if v = [] then notSpecifiedEn else v)
       (case concerns pr of None \<Rightarrow> noConcernsEn | Some vs \<Rightarrow> joinParts (js '', '') vs)
       (case ageRange pr of None \<Rightarrow> notSpecifiedEn | Some v \<Rightarrow> if v = [] then notSpecifiedEn else v)
       (case sunExposure pr of None \<Rightarrow> notSpecifiedEn | Some v \<Rightarrow> if v = [] then notSpecifiedEn else v)
       (case currentRoutine pr of None \<Rightarrow> notSpecifiedEn | Some v \<Rightarrow> if v = [] then notSpecifiedEn else v)
       (photoLine pd photoNoticeEn)"
  have eq: "userPrompt (JStr (js ''en'')) (profileValue pr) pd = Some p"
    unfolding p_def by (rule userPrompt_profileValue(2))
  have f1: "(skinType pr = None \<longrightarrow> includesStr p (skinLabelEn @ notSpecifiedEn)) \<and>
      (\<forall>v. skinType pr = Some v \<longrightarrow> includesStr p (skinLabelEn @ v))"
    unfolding p_def by (rule shown_field[OF userTemplateEn_includes(1)])
  have f2: "(concerns pr = None \<longrightarrow> includesStr p (concernsLabelEn @ noConcernsEn)) \<and>
      (\<forall>vs. concerns pr = Some vs \<longrightarrow> includesStr p (concernsLabelEn @ joinParts (js '', '') vs))"
    unfolding p_def by (rule shown_concerns[OF userTemplateEn_includes(2)])
  have f3: "(ageRange pr = None \<longrightarrow> includesStr p (ageLabelEn @ notSpecifiedEn)) \<and>
      (\<forall>v. ageRange pr = Some v \<longrightarrow> includesStr p (ageLabelEn @ v))"
    unfolding p_def by (rule shown_field[OF userTemplateEn_includes(3)])
  have f4: "(sunExposure pr = None \<longrightarrow> includesStr p (sunLabelEn @ notSpecifiedEn)) \<and>
      (\<forall>v. sunExposure pr = Some v \<longrightarrow> includesStr p (sunLabelEn @ v))"
    unfolding p_def by (rule shown_field[OF userTemplateEn_includes(4)])
  have f5: "(currentRoutine pr = None \<longrightarrow> includesStr p (routineLabelEn @ notSpecifiedEn)) \<and>
      (\<forall>v. currentRoutine pr = Some v \<longrightarrow> includesStr p (routineLabelEn @ v))"
    unfolding p_def by (rule shown_field[OF userTemplateEn_includes(5)])
  have ph: "endsWith p (photoNoticeEn @ closingEn) \<longleftrightarrow> truthy pd"
    unfolding p_def by (rule userTemplateEn_photo)
  from eq f1 f2 f3 f4 f5 ph show ?thesis
    by (intro exI[of _ p]) blast
qed

lemma userPromptFr_fields:
  "\<exists>p. userPrompt (JStr (js ''fr'')) (profileValue pr) pd = Some p \<and>
      (skinType pr = None \<longrightarrow> includesStr p (skinLabelFr @ notSpecifiedFr)) \<and>
      (\<forall>v. skinType pr = Some v \<longrightarrow> includesStr p (skinLabelFr @ v)) \<and>
      (concerns pr = None \<longrightarrow> includesStr p (concernsLabelFr @ noConcernsFr)) \<and>
      (\<forall>vs. concerns pr = Some vs \<longrightarrow> includesStr p (concernsLabelFr @ joinParts (js '', '') vs)) \<and>
      (ageRange pr = None \<longrightarrow> includesStr p (ageLabelFr @ notSpecifiedFr)) \<and>
      (\<forall>v. ageRange pr = Some v \<longrightarrow> includesStr p (ageLabelFr @ v)) \<and>
      (sunExposure pr = None \<longrightarrow> includesStr p (sunLabelFr @ notSpecifiedFr)) \<and>
      (\<forall>v. sunExposure pr = Some v \<longrightarrow> includesStr p (sunLabelFr @ v)) \<and>
      (currentRoutine pr = None \<longrightarrow> includesStr p (routineLabelFr @ notSpecifiedFr)) \<and>
      (\<forall>v. currentRoutine pr = Some v \<longrightarrow> includesStr p (routineLabelFr @ v)) \<and>
      (endsWith p (photoNoticeFr @ closingFr) \<longleftrightarrow> truthy pd)"
proof -
  define p where "p = userTemplateFr
       (case skinType pr of None \<Rightarrow> notSpecifiedFr | Some v \<Rightarrow> if v = [] then notSpecifiedFr else v)
       (case concerns pr of None \<Rightarrow> noConcernsFr | Some vs \<Rightarrow> joinParts (js '', '') vs)
       (case ageRange pr of None \<Rightarrow> notSpecifiedFr | Some v \<Rightarrow> if v = [] then notSpecifiedFr else v)
       (case sunExposure pr of None \<Rightarrow> notSpecifiedFr | Some v \<Rightarrow> if v = [] then notSpecifiedFr else v)
       (case currentRoutine pr of None \<Rightarrow> notSpecifiedFr | Some v \<Rightarrow> if v = [] then notSpecifiedFr else v)
       (photoLine pd photoNoticeFr)"
  have eq: "userPrompt (JStr (js ''fr'')) (profileValue pr) pd = Some p"
    unfolding p_def by (rule userPrompt_profileValue(1))
  have f1: "(skinType pr = None \<longrightarrow> includesStr p (skinLabelFr @ notSpecifiedFr)) \<and>
      (\<forall>v. skinType pr = Some v \<longrightarrow> includesStr p (skinLabelFr @ v))"
    unfolding p_def by (rule shown_field[OF userTemplateFr_includes(1)])
  have f2: "(concerns pr = None \<longrightarrow> includesStr p (concernsLabelFr @ noConcernsFr)) \<and>
      (\<forall>vs. concerns pr = Some vs \<longrightarrow> includesStr p (concernsLabelFr @ joinParts (js '', '') vs))"
    unfolding p_def by (rule shown_concerns[OF userTemplateFr_includes(2)])
  have f3: "(ageRange pr = None \<longrightarrow> includesStr p (ageLabelFr @ notSpecifiedFr)) \<and>
      (\<forall>v. ageRange pr = Some v \<longrightarrow> includesStr p (ageLabelFr @ v))"
    unfolding p_def by (rule shown_field[OF userTemplateFr_includes(3)])
  have f4: "(sunExposure pr = None \<longrightarrow> includesStr p (sunLabelFr @ notSpecifiedFr)) \<and>
      (\<forall>v. sunExposure pr = Some v \<longrightarrow> includesStr p (sunLabelFr @ v))"
    unfolding p_def by (rule shown_field[OF userTemplateFr_includes(4)])
  have f5: "(currentRoutine pr = None \<longrightarrow> includesStr p (routineLabelFr @ notSpecifiedFr)) \<and>
      (\<forall>v. currentRoutine pr = Some v \<longrightarrow> includesStr p (routineLabelFr @ v))"
    unfolding p_def by (rule shown_field[OF userTemplateFr_includes(5)])
  have ph: "endsWith p (photoNoticeFr @ closingFr) \<longleftrightarrow> truthy pd"
    unfolding p_def by (rule userTemplateFr_photo)
  from eq f1 f2 f3 f4 f5 ph show ?thesis
    by (intro exI[of _ p]) blast
qed

text \<open>
  C5, as the code has it. For \<open>en\<close> and for \<open>fr\<close>, and for every combination of present
  and absent profile fields, the user prompt is built and holds, after the label of its
  line: for an absent \<open>skinType\<close>, \<open>ageRange\<close>, \<open>sunExposure\<close> or \<open>currentRoutine\<close> the
  placeholder \<open>Not specified\<close> (French \<open>notSpecifiedFr\<close>); for absent \<open>concerns\<close> the
  placeholder \<open>None\<close> (French \<open>Aucune\<close>); for a present field its value, the concerns
  joined with a comma and a space. The prompt ends with the photo notice followed by the
  closing instructions if and only if \<open>photoData\<close> is truthy.
\<close>

theorem userPrompt_profile_fields:
  "(\<exists>p. userPrompt (JStr (js ''en'')) (profileValue pr) pd = Some p \<and>
      (skinType pr = None \<longrightarrow> includesStr p (skinLabelEn @ notSpecifiedEn)) \<and>
      (\<forall>v. skinType pr = Some v \<longrightarrow> includesStr p (skinLabelEn @ v)) \<and>
      (concerns pr = None \<longrightarrow> includesStr p (concernsLabelEn @ noConcernsEn)) \<and>
      (\<forall>vs. concerns pr = Some vs \<longrightarrow> includesStr p (concernsLabelEn @ joinParts (js '', '') vs)) \<and>
      (ageRange pr = None \<longrightarrow> includesStr p (ageLabelEn @ notSpecifiedEn)) \<and>
      (\<forall>v. ageRange pr = Some v \<longrightarrow> includesStr p (ageLabelEn @ v)) \<and>
      (sunExposure pr = None \<longrightarrow> includesStr p (sunLabelEn @ notSpecifiedEn)) \<and>
      (\<forall>v. sunExposure pr = Some v \<longrightarrow> includesStr p (sunLabelEn @ v)) \<and>
      (currentRoutine pr = None \<longrightarrow> includesStr p (routineLabelEn @ notSpecifiedEn)) \<and>
      (\<forall>v. currentRoutine pr = Some v \<longrightarrow> includesStr p (routineLabelEn @ v)) \<and>
      (endsWith p (photoNoticeEn @ closingEn) \<longleftrightarrow> truthy pd)) \<and>
   (\<exists>p. userPrompt (JStr (js ''fr'')) (profileValue pr) pd = Some p \<and>
      (skinType pr = None \<longrightarrow> includesStr p (skinLabelFr @ notSpecifiedFr)) \<and>
      (\<forall>v. skinType pr = Some v \<longrightarrow> includesStr p (skinLabelFr @ v)) \<and>
      (concerns pr = None \<longrightarrow> includesStr p (concernsLabelFr @ noConcernsFr)) \<and>
      (\<forall>vs. concerns pr = Some vs \<longrightarrow> includesStr p (concernsLabelFr @ joinParts (js '', '') vs)) \<and>
      (ageRange pr = None \<longrightarrow> includesStr p (ageLabelFr @ notSpecifiedFr)) \<and>
      (\<forall>v. ageRange pr = Some v \<longrightarrow> includesStr p (ageLabelFr @ v)) \<and>
      (sunExposure pr = None \<longrightarrow> includesStr p (sunLabelFr @ notSpecifiedFr)) \<and>
      (\<forall>v. sunExposure pr = Some v \<longrightarrow> includesStr p (sunLabelFr @ v)) \<and>
      (currentRoutine pr = None \<longrightarrow> includesStr p (routineLabelFr @ notSpecifiedFr)) \<and>
      (\<forall>v. currentRoutine pr = Some v \<longrightarrow> includesStr p (routineLabelFr @ v)) \<and>
      (endsWith p (photoNoticeFr @ closingFr) \<longleftrightarrow> truthy pd))"
  using userPromptEn_fields[of pr pd] userPromptFr_fields[of pr pd] by (rule conjI)

theorem userPrompt_profile_fields_witness:
  "(\<exists>p. userPrompt (JStr (js ''en''))
          (profileValue \<lparr>skinType = Some (js ''oily''), concerns = Some [js ''acne'', js ''dryness''],
             ageRange = None, sunExposure = None, currentRoutine = Some (js ''basic''),
             photoData = None\<rparr>) (JStr (js ''QUJD'')) = Some p \<and>
      includesStr p (skinLabelEn @ js ''oily'') \<and>
      includesStr p (concernsLabelEn @ js ''acne'' @ js '', '' @ js ''dryness'') \<and>
      includesStr p (ageLabelEn @ notSpecifiedEn) \<and>
      includesStr p (sunLabelEn @ notSpecifiedEn) \<and>
      includesStr p (routineLabelEn @ js ''basic'') \<and>
      endsWith p (photoNoticeEn @ closingEn)) \<and>
   (\<exists>p. userPrompt (JStr (js ''fr''))
          (profileValue \<lparr>skinType = Some (js ''oily''), concerns = Some [js ''acne'', js ''dryness''],
             ageRange = None, sunExposure = None, currentRoutine = Some (js ''basic''),
             photoData = None\<rparr>) (JStr (js ''QUJD'')) = Some p \<and>
      includesStr p (skinLabelFr @ js ''oily'') \<and>
      includesStr p (concernsLabelFr @ js ''acne'' @ js '', '' @ js ''dryness'') \<and>
      includesStr p (ageLabelFr @ notSpecifiedFr) \<and>
      includesStr p (sunLabelFr @ notSpecifiedFr) \<and>
      includesStr p (routineLabelFr @ js ''basic'') \<and>
      endsWith p (photoNoticeFr @ closingFr))"
  using userPrompt_profile_fields
    [of "\<lparr>skinType = Some (js ''oily''), concerns = Some [js ''acne'', js ''dryness''],
          ageRange = None, sunExposure = None, currentRoutine = Some (js ''basic''),
          photoData = None\<rparr>" "JStr (js ''QUJD'')"]
  by simp

text \<open>
  The claim as written has the \<open>not specified\<close> placeholder for every absent field. With
  only \<open>concerns\<close> absent the English prompt reads \<open>Concerns: None\<close> and holds
  \<open>Not specified\<close> nowhere.
\<close>

theorem userPrompt_concerns_placeholder_counterexample:
  "userPrompt (JStr (js ''en''))
     (profileValue \<lparr>skinType = Some (js ''oily''), concerns = None,
        ageRange = Some (js ''25-34''), sunExposure = Some (js ''moderate''),
        currentRoutine = Some (js ''basic''), photoData = None\<rparr>) JUndefined =
     Some (userTemplateEn (js ''oily'') (js ''None'') (js ''25-34'') (js ''moderate'') (js ''basic'') []) \<and>
   \<not> includesStr
     (userTemplateEn (js ''oily'') (js ''None'') (js ''25-34'') (js ''moderate'') (js ''basic'') [])
     (js ''Not specified'')"
  by code_simp

section \<open>Properties of the request handlers\<close>

lemma assertPostJson_json:
  "assertPostJson \<lparr>httpMethod = js ''POST'', contentType = Some (js ''application/json''), body = b\<rparr> = None"
proof -
  have "includesStr (toLowerCase (js ''application/json'')) (js ''application/json'')"
    by code_simp
  then show ?thesis by (simp add: assertPostJson_def)
qed

lemma trim_Nil [simp]: "trim [] = []"
  by (simp add: trim_def trimStart_def trimEnd_def)

lemma analyzePhoto_reaches_model:
  "img \<noteq> [] \<Longrightarrow> length img \<le> 8000000 \<Longrightarrow> apiKey \<noteq> [] \<Longrightarrow>
   modelCalls (analyzePhoto g \<lparr>geminiClient = False, GEMINI_API_KEY = Some apiKey\<rparr>
     \<lparr>httpMethod = js ''POST'', contentType = Some (js ''application/json''),
      body = JObj ((js ''imageBase64'', JStr img) # others)\<rparr>) =
     [[TextPart (basePrompt (getProp (JObj ((js ''imageBase64'', JStr img) # others)) (js ''prompt''))
                   (getProp (JObj ((js ''imageBase64'', JStr img) # others)) (js ''lang''))),
       InlineData (base64 (normalizeBase64 img)) (mimeType (normalizeBase64 img))]]"
  by (simp add: analyzePhoto_def assertPostJson_json bodyOrEmpty_def coalesce_def
      getGeminiClient_def Let_def split: modelReply.splits)

lemma userPrompt_empty_profile:
  "userPrompt (JStr (js ''en'')) (JObj []) JUndefined =
     Some (userTemplateEn notSpecifiedEn noConcernsEn notSpecifiedEn notSpecifiedEn notSpecifiedEn [])"
  by (simp add: userPrompt_def fieldText_def concernsText_def orElse_def photoLine_def
      notSpecifiedEn_def noConcernsEn_def)

lemma skinAnalysis_reaches_model:
  "apiKey \<noteq> [] \<Longrightarrow>
   modelCalls (skinAnalysis numberOf g \<lparr>geminiClient = False, GEMINI_API_KEY = Some apiKey\<rparr>
     \<lparr>httpMethod = js ''POST'', contentType = Some (js ''application/json''),
      body = JObj [(js ''profile'', JObj [])]\<rparr>) =
     [[TextPart (systemPromptEn @ js ''\<newline>\<newline>'' @
         userTemplateEn notSpecifiedEn noConcernsEn notSpecifiedEn notSpecifiedEn notSpecifiedEn [])]]"
  by (simp add: skinAnalysis_def assertPostJson_json bodyOrEmpty_def coalesce_def
      getGeminiClient_def languageOf_def Let_def userPrompt_empty_profile systemPrompt_def
      photoParts_def split: modelReply.splits)

lemma analyzePhoto_accepts:
  "img \<noteq> [] \<Longrightarrow> length img \<le> 8000000 \<Longrightarrow> apiKey \<noteq> [] \<Longrightarrow> t \<noteq> [] \<Longrightarrow>
   analyzePhoto (\<lambda>ps. ModelText t) \<lparr>geminiClient = False, GEMINI_API_KEY = Some apiKey\<rparr>
     \<lparr>httpMethod = js ''POST'', contentType = Some (js ''application/json''),
      body = JObj ((js ''imageBase64'', JStr img) # others)\<rparr> =
     \<lparr>sent = \<lparr>status = 200, json = PhotoAnalysis t\<rparr>,
      envAfter = \<lparr>geminiClient = True, GEMINI_API_KEY = Some apiKey\<rparr>,
      modelCalls =
        [[TextPart (basePrompt (getProp (JObj ((js ''imageBase64'', JStr img) # others)) (js ''prompt''))
                      (getProp (JObj ((js ''imageBase64'', JStr img) # others)) (js ''lang''))),
          InlineData (base64 (normalizeBase64 img)) (mimeType (normalizeBase64 img))]]\<rparr>"
  by (simp add: analyzePhoto_def assertPostJson_json bodyOrEmpty_def coalesce_def
      getGeminiClient_def Let_def)

lemma userPrompt_of_string:
  "userPrompt lang (JStr s) pd =
     Some (if lang = JStr (js ''fr'')
           then userTemplateFr notSpecifiedFr noConcernsFr notSpecifiedFr notSpecifiedFr
                  notSpecifiedFr (photoLine pd photoNoticeFr)
           else userTemplateEn notSpecifiedEn noConcernsEn notSpecifiedEn notSpecifiedEn
                  notSpecifiedEn (photoLine pd photoNoticeEn))"
  by (simp add: userPrompt_def fieldText_def concernsText_def orElse_def
      notSpecifiedEn_def noConcernsEn_def notSpecifiedFr_def noConcernsFr_def)

text \<open>
  C7. On analyzePhoto the size guard is strict at 8,000,000 code units. A valid POST whose
  \<open>imageBase64\<close> is a string of 8,000,001 code units or more is answered with 413 and
  no model call is made. A string of exactly 8,000,000 passes the guard: once the
  client is there the model is called with the instruction and the normalized image,
  and a non-empty answer comes back with status 200.
\<close>

theorem analyzePhoto_size_guard:
  "assertPostJson req = None \<and> getProp (bodyOrEmpty req) (js ''imageBase64'') = JStr img \<longrightarrow>
     (8000001 \<le> length img \<longrightarrow>
        analyzePhoto generateContent e req =
          \<lparr>sent = \<lparr>status = 413,
                    json = ErrorEnvelope (js ''Image too large. Please upload a smaller image.'')\<rparr>,
           envAfter = e, modelCalls = []\<rparr>) \<and>
     (length img = 8000000 \<and> getGeminiClient e = Inr e' \<longrightarrow>
        modelCalls (analyzePhoto generateContent e req) =
          [[TextPart (basePrompt (getProp (bodyOrEmpty req) (js ''prompt''))
                        (getProp (bodyOrEmpty req) (js ''lang''))),
            InlineData (base64 (normalizeBase64 img)) (mimeType (normalizeBase64 img))]] \<and>
        (\<forall>t. generateContent
               [TextPart (basePrompt (getProp (bodyOrEmpty req) (js ''prompt''))
                            (getProp (bodyOrEmpty req) (js ''lang''))),
                InlineData (base64 (normalizeBase64 img)) (mimeType (normalizeBase64 img))] =
              ModelText t \<and> t \<noteq> [] \<longrightarrow>
             sent (analyzePhoto generateContent e req) = \<lparr>status = 200, json = PhotoAnalysis t\<rparr>))"
proof (intro impI conjI allI)
  assume a: "assertPostJson req = None \<and> getProp (bodyOrEmpty req) (js ''imageBase64'') = JStr img"
  assume b: "8000001 \<le> length img"
  then have "img \<noteq> []" by auto
  with a b show "analyzePhoto generateContent e req =
          \<lparr>sent = \<lparr>status = 413,
                    json = ErrorEnvelope (js ''Image too large. Please upload a smaller image.'')\<rparr>,
           envAfter = e, modelCalls = []\<rparr>"
    by (simp add: analyzePhoto_def)
next
  assume a: "assertPostJson req = None \<and> getProp (bodyOrEmpty req) (js ''imageBase64'') = JStr img"
  assume b: "length img = 8000000 \<and> getGeminiClient e = Inr e'"
  then have "img \<noteq> []" by auto
  with a b show "modelCalls (analyzePhoto generateContent e req) =
          [[TextPart (basePrompt (getProp (bodyOrEmpty req) (js ''prompt''))
                        (getProp (bodyOrEmpty req) (js ''lang''))),
            InlineData (base64 (normalizeBase64 img)) (mimeType (normalizeBase64 img))]]"
    by (simp add: analyzePhoto_def Let_def split: modelReply.splits)
next
  fix t
  assume a: "assertPostJson req = None \<and> getProp (bodyOrEmpty req) (js ''imageBase64'') = JStr img"
  assume b: "length img = 8000000 \<and> getGeminiClient e = Inr e'"
  assume c: "generateContent
               [TextPart (basePrompt (getProp (bodyOrEmpty req) (js ''prompt''))
                            (getProp (bodyOrEmpty req) (js ''lang''))),
                InlineData (base64 (normalizeBase64 img)) (mimeType (normalizeBase64 img))] =
              ModelText t \<and> t \<noteq> []"
  from b have "img \<noteq> []" by auto
  with a b c show "sent (analyzePhoto generateContent e req) = \<lparr>status = 200, json = PhotoAnalysis t\<rparr>"
    by (simp add: analyzePhoto_def Let_def)
qed

theorem analyzePhoto_size_guard_witness:
  "analyzePhoto (\<lambda>ps. ModelText (js ''ok'')) \<lparr>geminiClient = True, GEMINI_API_KEY = None\<rparr>
     \<lparr>httpMethod = js ''POST'', contentType = Some (js ''application/json''),
      body = JObj [(js ''imageBase64'', JStr (replicate 8000001 0x41))]\<rparr> =
     \<lparr>sent = \<lparr>status = 413,
               json = ErrorEnvelope (js ''Image too large. Please upload a smaller image.'')\<rparr>,
      envAfter = \<lparr>geminiClient = True, GEMINI_API_KEY = None\<rparr>, modelCalls = []\<rparr> \<and>
   sent (analyzePhoto (\<lambda>ps. ModelText (js ''ok'')) \<lparr>geminiClient = True, GEMINI_API_KEY = None\<rparr>
     \<lparr>httpMethod = js ''POST'', contentType = Some (js ''application/json''),
      body = JObj [(js ''imageBase64'', JStr (replicate 8000000 0x41))]\<rparr>) =
     \<lparr>status = 200, json = PhotoAnalysis (js ''ok'')\<rparr>"
proof -
  have ne: "js ''ok'' \<noteq> []" by (simp add: js_def)
  show ?thesis
    using analyzePhoto_size_guard
      [of "\<lparr>httpMethod = js ''POST'', contentType = Some (js ''application/json''),
            body = JObj [(js ''imageBase64'', JStr (replicate 8000001 0x41))]\<rparr>"
          "replicate 8000001 0x41" "\<lambda>ps. ModelText (js ''ok'')"
          "\<lparr>geminiClient = True, GEMINI_API_KEY = None\<rparr>"
          "\<lparr>geminiClient = True, GEMINI_API_KEY = None\<rparr>"]
      analyzePhoto_size_guard
      [of "\<lparr>httpMethod = js ''POST'', contentType = Some (js ''application/json''),
            body = JObj [(js ''imageBase64'', JStr (replicate 8000000 0x41))]\<rparr>"
          "replicate 8000000 0x41" "\<lambda>ps. ModelText (js ''ok'')"
          "\<lparr>geminiClient = True, GEMINI_API_KEY = None\<rparr>"
          "\<lparr>geminiClient = True, GEMINI_API_KEY = None\<rparr>"]
      ne
    by (simp add: assertPostJson_json bodyOrEmpty_def coalesce_def getGeminiClient_def)
qed


text \<open>
  C8. On both endpoints, when the handler has called the model and the call gave an
  empty text, the answer is status 502 with the body
  \<open>{ok: false, error: "Empty response from AI model."}\<close>.
\<close>

theorem empty_model_text_is_502:
  "(modelCalls (skinAnalysis numberOf generateContent e req) = [parts] \<and>
      generateContent parts = ModelText [] \<longrightarrow>
    sent (skinAnalysis numberOf generateContent e req) =
      \<lparr>status = 502, json = ErrorEnvelope (js ''Empty response from AI model.'')\<rparr>) \<and>
   (modelCalls (analyzePhoto generateContent e req) = [parts] \<and>
      generateContent parts = ModelText [] \<longrightarrow>
    sent (analyzePhoto generateContent e req) =
      \<lparr>status = 502, json = ErrorEnvelope (js ''Empty response from AI model.'')\<rparr>)"
proof (intro conjI impI)
  assume "modelCalls (skinAnalysis numberOf generateContent e req) = [parts] \<and>
      generateContent parts = ModelText []"
  then show "sent (skinAnalysis numberOf generateContent e req) =
      \<lparr>status = 502, json = ErrorEnvelope (js ''Empty response from AI model.'')\<rparr>"
    by (auto simp: skinAnalysis_def Let_def reconcile_def 
        split: option.splits if_splits sum.splits modelReply.splits)
next
  assume "modelCalls (analyzePhoto generateContent e req) = [parts] \<and>
      generateContent parts = ModelText []"
  then show "sent (analyzePhoto generateContent e req) =
      \<lparr>status = 502, json = ErrorEnvelope (js ''Empty response from AI model.'')\<rparr>"
    by (auto simp: analyzePhoto_def Let_def 
        split: option.splits if_splits sum.splits modelReply.splits jsvalue.splits)
qed

theorem empty_model_text_is_502_witness:
  "sent (skinAnalysis id (\<lambda>ps. ModelText []) \<lparr>geminiClient = False, GEMINI_API_KEY = Some (js ''key'')\<rparr>
     \<lparr>httpMethod = js ''POST'', contentType = Some (js ''application/json''),
      body = JObj [(js ''profile'', JObj [])]\<rparr>) =
     \<lparr>status = 502, json = ErrorEnvelope (js ''Empty response from AI model.'')\<rparr> \<and>
   sent (analyzePhoto (\<lambda>ps. ModelText []) \<lparr>geminiClient = False, GEMINI_API_KEY = Some (js ''key'')\<rparr>
     \<lparr>httpMethod = js ''POST'', contentType = Some (js ''application/json''),
      body = JObj [(js ''imageBase64'', JStr (js ''QUJD''))]\<rparr>) =
     \<lparr>status = 502, json = ErrorEnvelope (js ''Empty response from AI model.'')\<rparr>"
proof -
  have a: "modelCalls (skinAnalysis id (\<lambda>ps. ModelText [])
      \<lparr>geminiClient = False, GEMINI_API_KEY = Some (js ''key'')\<rparr>
      \<lparr>httpMethod = js ''POST'', contentType = Some (js ''application/json''),
       body = JObj [(js ''profile'', JObj [])]\<rparr>) =
     [[TextPart (systemPromptEn @ js ''\<newline>\<newline>'' @
         userTemplateEn notSpecifiedEn noConcernsEn notSpecifiedEn notSpecifiedEn notSpecifiedEn [])]]"
    by (rule skinAnalysis_reaches_model) simp
  have b: "modelCalls (analyzePhoto (\<lambda>ps. ModelText [])
      \<lparr>geminiClient = False, GEMINI_API_KEY = Some (js ''key'')\<rparr>
      \<lparr>httpMethod = js ''POST'', contentType = Some (js ''application/json''),
       body = JObj [(js ''imageBase64'', JStr (js ''QUJD''))]\<rparr>) =
     [[TextPart (basePrompt (getProp (JObj [(js ''imageBase64'', JStr (js ''QUJD''))]) (js ''prompt''))
                   (getProp (JObj [(js ''imageBase64'', JStr (js ''QUJD''))]) (js ''lang''))),
       InlineData (base64 (normalizeBase64 (js ''QUJD''))) (mimeType (normalizeBase64 (js ''QUJD'')))]]"
    by (rule analyzePhoto_reaches_model) simp_all
  from a
    empty_model_text_is_502 [THEN conjunct1, of id "\<lambda>ps. ModelText []"
      "\<lparr>geminiClient = False, GEMINI_API_KEY = Some (js ''key'')\<rparr>"
      "\<lparr>httpMethod = js ''POST'', contentType = Some (js ''application/json''),
        body = JObj [(js ''profile'', JObj [])]\<rparr>"]
  have c: "sent (skinAnalysis id (\<lambda>ps. ModelText [])
      \<lparr>geminiClient = False, GEMINI_API_KEY = Some (js ''key'')\<rparr>
      \<lparr>httpMethod = js ''POST'', contentType = Some (js ''application/json''),
       body = JObj [(js ''profile'', JObj [])]\<rparr>) =
     \<lparr>status = 502, json = ErrorEnvelope (js ''Empty response from AI model.'')\<rparr>"
    by simp
  from b
    empty_model_text_is_502 [THEN conjunct2, of "\<lambda>ps. ModelText []"
      "\<lparr>geminiClient = False, GEMINI_API_KEY = Some (js ''key'')\<rparr>"
      "\<lparr>httpMethod = js ''POST'', contentType = Some (js ''application/json''),
        body = JObj [(js ''imageBase64'', JStr (js ''QUJD''))]\<rparr>"]
  have d: "sent (analyzePhoto (\<lambda>ps. ModelText [])
      \<lparr>geminiClient = False, GEMINI_API_KEY = Some (js ''key'')\<rparr>
      \<lparr>httpMethod = js ''POST'', contentType = Some (js ''application/json''),
       body = JObj [(js ''imageBase64'', JStr (js ''QUJD''))]\<rparr>) =
     \<lparr>status = 502, json = ErrorEnvelope (js ''Empty response from AI model.'')\<rparr>"
    by simp
  from c d show ?thesis by simp
qed

text \<open>
  C4, as the code has it. On analyzePhoto, when the handler has called the model and the
  call gave a non-empty text, the answer is status 200 with the body
  \<open>{ok: true, analysisText: t}\<close> where \<open>t\<close> is the model's text exactly as it came
  back: no fence is stripped, nothing is parsed, and nothing is trimmed.
\<close>

theorem analyzePhoto_passes_text_through:
  "modelCalls (analyzePhoto generateContent e req) = [parts] \<and>
     generateContent parts = ModelText t \<and> t \<noteq> [] \<longrightarrow>
   sent (analyzePhoto generateContent e req) = \<lparr>status = 200, json = PhotoAnalysis t\<rparr>"
  by (auto simp: analyzePhoto_def Let_def
      split: option.splits if_splits sum.splits modelReply.splits jsvalue.splits)

theorem analyzePhoto_passes_text_through_witness:
  "sent (analyzePhoto (\<lambda>ps. ModelText (js ''```json\<newline>{}\<newline>```\<newline>''))
     \<lparr>geminiClient = False, GEMINI_API_KEY = Some (js ''key'')\<rparr>
     \<lparr>httpMethod = js ''POST'', contentType = Some (js ''application/json''),
      body = JObj [(js ''imageBase64'', JStr (js ''QUJD''))]\<rparr>) =
     \<lparr>status = 200, json = PhotoAnalysis (js ''```json\<newline>{}\<newline>```\<newline>'')\<rparr>"
proof -
  have b: "modelCalls (analyzePhoto (\<lambda>ps. ModelText (js ''```json\<newline>{}\<newline>```\<newline>''))
      \<lparr>geminiClient = False, GEMINI_API_KEY = Some (js ''key'')\<rparr>
      \<lparr>httpMethod = js ''POST'', contentType = Some (js ''application/json''),
       body = JObj [(js ''imageBase64'', JStr (js ''QUJD''))]\<rparr>) =
     [[TextPart (basePrompt (getProp (JObj [(js ''imageBase64'', JStr (js ''QUJD''))]) (js ''prompt''))
                   (getProp (JObj [(js ''imageBase64'', JStr (js ''QUJD''))]) (js ''lang''))),
       InlineData (base64 (normalizeBase64 (js ''QUJD''))) (mimeType (normalizeBase64 (js ''QUJD'')))]]"
    by (rule analyzePhoto_reaches_model) simp_all
  from b
    analyzePhoto_passes_text_through
      [of "\<lambda>ps. ModelText (js ''```json\<newline>{}\<newline>```\<newline>'')"
        "\<lparr>geminiClient = False, GEMINI_API_KEY = Some (js ''key'')\<rparr>"
        "\<lparr>httpMethod = js ''POST'', contentType = Some (js ''application/json''),
          body = JObj [(js ''imageBase64'', JStr (js ''QUJD''))]\<rparr>"
        _ "js ''```json\<newline>{}\<newline>```\<newline>''"]
  show ?thesis by simp
qed

text \<open>
  The claim as written has the text trimmed. A text that ends in a line feed comes back
  with the line feed.
\<close>

theorem analyzePhoto_trimmed_text_counterexample:
  "sent (analyzePhoto (\<lambda>ps. ModelText (js ''Looks healthy.\<newline>''))
     \<lparr>geminiClient = False, GEMINI_API_KEY = Some (js ''key'')\<rparr>
     \<lparr>httpMethod = js ''POST'', contentType = Some (js ''application/json''),
      body = JObj [(js ''imageBase64'', JStr (js ''QUJD''))]\<rparr>) =
     \<lparr>status = 200, json = PhotoAnalysis (js ''Looks healthy.\<newline>'')\<rparr> \<and>
   js ''Looks healthy.\<newline>'' \<noteq> trim (js ''Looks healthy.\<newline>'')"
proof -
  have "trim (js ''Looks healthy.\<newline>'') = js ''Looks healthy.''"
    by code_simp
  then show ?thesis
    by (simp add: analyzePhoto_accepts)
qed

text \<open>
  C6, as the code has it. On analyzePhoto, for a valid request that reaches the model
  call: when the caller's \<open>prompt\<close> is a string whose trimmed content is not empty, the
  instruction sent to the model is that prompt trimmed of surrounding whitespace; when
  there is no such prompt, the instruction is the fixed cosmetic-coach template, written
  for \<open>French\<close> when \<open>lang\<close> is \<open>"fr"\<close> and for \<open>English\<close> for every other value.
\<close>

theorem analyzePhoto_instruction:
  "assertPostJson req = None \<and> getProp (bodyOrEmpty req) (js ''imageBase64'') = JStr img \<and>
     img \<noteq> [] \<and> length img \<le> 8000000 \<and> getGeminiClient e = Inr e' \<longrightarrow>
   (\<exists>instruction.
      modelCalls (analyzePhoto generateContent e req) =
        [[TextPart instruction,
          InlineData (base64 (normalizeBase64 img)) (mimeType (normalizeBase64 img))]] \<and>
      (\<forall>p. getProp (bodyOrEmpty req) (js ''prompt'') = JStr p \<and> trim p \<noteq> [] \<longrightarrow>
           instruction = trim p) \<and>
      ((\<forall>p. getProp (bodyOrEmpty req) (js ''prompt'') = JStr p \<longrightarrow> trim p = []) \<longrightarrow>
         instruction =
           coachTemplate (if getProp (bodyOrEmpty req) (js ''lang'') = JStr (js ''fr'')
                          then js ''French'' else js ''English'')))"
proof (intro impI)
  assume a: "assertPostJson req = None \<and> getProp (bodyOrEmpty req) (js ''imageBase64'') = JStr img \<and>
     img \<noteq> [] \<and> length img \<le> 8000000 \<and> getGeminiClient e = Inr e'"
  let ?i = "basePrompt (getProp (bodyOrEmpty req) (js ''prompt'')) (getProp (bodyOrEmpty req) (js ''lang''))"
  have calls: "modelCalls (analyzePhoto generateContent e req) =
        [[TextPart ?i, InlineData (base64 (normalizeBase64 img)) (mimeType (normalizeBase64 img))]]"
    using a by (simp add: analyzePhoto_def Let_def split: modelReply.splits)
  have own: "\<forall>p. getProp (bodyOrEmpty req) (js ''prompt'') = JStr p \<and> trim p \<noteq> [] \<longrightarrow> ?i = trim p"
    by (auto simp: basePrompt_def Let_def)
  have dflt: "(\<forall>p. getProp (bodyOrEmpty req) (js ''prompt'') = JStr p \<longrightarrow> trim p = []) \<longrightarrow>
      ?i = coachTemplate (if getProp (bodyOrEmpty req) (js ''lang'') = JStr (js ''fr'')
                          then js ''French'' else js ''English'')"
    by (cases "getProp (bodyOrEmpty req) (js ''prompt'')") (auto simp: basePrompt_def Let_def)
  from calls own dflt show "\<exists>instruction.
      modelCalls (analyzePhoto generateContent e req) =
        [[TextPart instruction,
          InlineData (base64 (normalizeBase64 img)) (mimeType (normalizeBase64 img))]] \<and>
      (\<forall>p. getProp (bodyOrEmpty req) (js ''prompt'') = JStr p \<and> trim p \<noteq> [] \<longrightarrow>
           instruction = trim p) \<and>
      ((\<forall>p. getProp (bodyOrEmpty req) (js ''prompt'') = JStr p \<longrightarrow> trim p = []) \<longrightarrow>
         instruction =
           coachTemplate (if getProp (bodyOrEmpty req) (js ''lang'') = JStr (js ''fr'')
                          then js ''French'' else js ''English''))"
    by blast
qed

theorem analyzePhoto_instruction_witness:
  "modelCalls (analyzePhoto (\<lambda>ps. ModelText (js ''ok''))
      \<lparr>geminiClient = False, GEMINI_API_KEY = Some (js ''key'')\<rparr>
      \<lparr>httpMethod = js ''POST'', contentType = Some (js ''application/json''),
       body = JObj [(js ''imageBase64'', JStr (js ''QUJD'')),
                    (js ''prompt'', JStr (js ''Describe the photo.''))]\<rparr>) =
     [[TextPart (js ''Describe the photo.''),
       InlineData (base64 (normalizeBase64 (js ''QUJD''))) (mimeType (normalizeBase64 (js ''QUJD'')))]] \<and>
   modelCalls (analyzePhoto (\<lambda>ps. ModelText (js ''ok''))
      \<lparr>geminiClient = False, GEMINI_API_KEY = Some (js ''key'')\<rparr>
      \<lparr>httpMethod = js ''POST'', contentType = Some (js ''application/json''),
       body = JObj [(js ''imageBase64'', JStr (js ''QUJD'')), (js ''prompt'', JStr (js ''  '')),
                    (js ''lang'', JStr (js ''fr''))]\<rparr>) =
     [[TextPart (coachTemplate (js ''French'')),
       InlineData (base64 (normalizeBase64 (js ''QUJD''))) (mimeType (normalizeBase64 (js ''QUJD'')))]]"
proof -
  have t1: "trim (js ''Describe the photo.'') = js ''Describe the photo.''" by code_simp
  have t2: "trim (js ''  '') = []" by code_simp
  have g: "getGeminiClient \<lparr>geminiClient = False, GEMINI_API_KEY = Some (js ''key'')\<rparr> =
      Inr \<lparr>geminiClient = True, GEMINI_API_KEY = Some (js ''key'')\<rparr>"
    by (simp add: getGeminiClient_def)
  from analyzePhoto_instruction
    [of "\<lparr>httpMethod = js ''POST'', contentType = Some (js ''application/json''),
       body = JObj [(js ''imageBase64'', JStr (js ''QUJD'')),
                    (js ''prompt'', JStr (js ''Describe the photo.''))]\<rparr>"
      "js ''QUJD''" "\<lparr>geminiClient = False, GEMINI_API_KEY = Some (js ''key'')\<rparr>"
      "\<lparr>geminiClient = True, GEMINI_API_KEY = Some (js ''key'')\<rparr>"
      "\<lambda>ps. ModelText (js ''ok'')"]
  have a: "modelCalls (analyzePhoto (\<lambda>ps. ModelText (js ''ok''))
      \<lparr>geminiClient = False, GEMINI_API_KEY = Some (js ''key'')\<rparr>
      \<lparr>httpMethod = js ''POST'', contentType = Some (js ''application/json''),
       body = JObj [(js ''imageBase64'', JStr (js ''QUJD'')),
                    (js ''prompt'', JStr (js ''Describe the photo.''))]\<rparr>) =
     [[TextPart (js ''Describe the photo.''),
       InlineData (base64 (normalizeBase64 (js ''QUJD''))) (mimeType (normalizeBase64 (js ''QUJD'')))]]"
    using g t1 by (auto simp: assertPostJson_json bodyOrEmpty_def coalesce_def)
  from analyzePhoto_instruction
    [of "\<lparr>httpMethod = js ''POST'', contentType = Some (js ''application/json''),
       body = JObj [(js ''imageBase64'', JStr (js ''QUJD'')), (js ''prompt'', JStr (js ''  '')),
                    (js ''lang'', JStr (js ''fr''))]\<rparr>"
      "js ''QUJD''" "\<lparr>geminiClient = False, GEMINI_API_KEY = Some (js ''key'')\<rparr>"
      "\<lparr>geminiClient = True, GEMINI_API_KEY = Some (js ''key'')\<rparr>"
      "\<lambda>ps. ModelText (js ''ok'')"]
  have b: "modelCalls (analyzePhoto (\<lambda>ps. ModelText (js ''ok''))
      \<lparr>geminiClient = False, GEMINI_API_KEY = Some (js ''key'')\<rparr>
      \<lparr>httpMethod = js ''POST'', contentType = Some (js ''application/json''),
       body = JObj [(js ''imageBase64'', JStr (js ''QUJD'')), (js ''prompt'', JStr (js ''  '')),
                    (js ''lang'', JStr (js ''fr''))]\<rparr>) =
     [[TextPart (coachTemplate (js ''French'')),
       InlineData (base64 (normalizeBase64 (js ''QUJD''))) (mimeType (normalizeBase64 (js ''QUJD'')))]]"
    using g t2 by (auto simp: assertPostJson_json bodyOrEmpty_def coalesce_def)
  from a b show ?thesis by simp
qed

text \<open>
  The claim as written has the caller's prompt used verbatim. A prompt with a leading
  space and a trailing line feed reaches the model without them.
\<close>

theorem analyzePhoto_verbatim_prompt_counterexample:
  "modelCalls (analyzePhoto (\<lambda>ps. ModelText (js ''ok''))
      \<lparr>geminiClient = False, GEMINI_API_KEY = Some (js ''key'')\<rparr>
      \<lparr>httpMethod = js ''POST'', contentType = Some (js ''application/json''),
       body = JObj [(js ''imageBase64'', JStr (js ''QUJD'')),
                    (js ''prompt'', JStr (js '' Describe the photo.\<newline>''))]\<rparr>) =
     [[TextPart (js ''Describe the photo.''),
       InlineData (base64 (normalizeBase64 (js ''QUJD''))) (mimeType (normalizeBase64 (js ''QUJD'')))]] \<and>
   js ''Describe the photo.'' \<noteq> js '' Describe the photo.\<newline>''"
proof -
  have t: "trim (js '' Describe the photo.\<newline>'') = js ''Describe the photo.''" by code_simp
  have "basePrompt (JStr (js '' Describe the photo.\<newline>'')) JUndefined = js ''Describe the photo.''"
    using t by (simp add: basePrompt_def Let_def)
  then show ?thesis
    by (simp add: analyzePhoto_reaches_model)
qed

text \<open>
  C10. The profile check of skinAnalysis is a truthiness test. For a valid POST whose
  \<open>profile\<close> is falsy (missing, \<open>null\<close>, \<open>false\<close>, \<open>0\<close> or the empty string among them) the
  answer is status 400 with \<open>{ok: false, error: "Missing profile data."}\<close> and no model
  call. Every truthy profile passes: once the client is there and the user prompt is
  built, the model is called with the system prompt, a blank line and that user prompt.
  A non-empty string is truthy, and its user prompt is built with every placeholder.
\<close>

theorem skinAnalysis_profile_check:
  "(assertPostJson req = None \<longrightarrow>
      (\<not> truthy (getProp (bodyOrEmpty req) (js ''profile'')) \<longrightarrow>
         skinAnalysis numberOf generateContent e req =
           \<lparr>sent = \<lparr>status = 400, json = ErrorEnvelope (js ''Missing profile data.'')\<rparr>,
            envAfter = e, modelCalls = []\<rparr>) \<and>
      (truthy (getProp (bodyOrEmpty req) (js ''profile'')) \<and> getGeminiClient e = Inr e' \<and>
         userPrompt (languageOf (bodyOrEmpty req)) (getProp (bodyOrEmpty req) (js ''profile''))
           (getProp (bodyOrEmpty req) (js ''photoData'')) = Some prompt \<longrightarrow>
         modelCalls (skinAnalysis numberOf generateContent e req) =
           [TextPart (systemPrompt (languageOf (bodyOrEmpty req)) @ js ''\<newline>\<newline>'' @ prompt)
              # photoParts (getProp (bodyOrEmpty req) (js ''photoData''))])) \<and>
   \<not> truthy JNull \<and> \<not> truthy (JBool False) \<and> \<not> truthy (JNum (js ''0'')) \<and> \<not> truthy (JStr []) \<and>
   (s \<noteq> [] \<longrightarrow>
      truthy (JStr s) \<and>
      userPrompt lang (JStr s) pd =
        Some (if lang = JStr (js ''fr'')
              then userTemplateFr notSpecifiedFr noConcernsFr notSpecifiedFr notSpecifiedFr
                     notSpecifiedFr (photoLine pd photoNoticeFr)
              else userTemplateEn notSpecifiedEn noConcernsEn notSpecifiedEn notSpecifiedEn
                     notSpecifiedEn (photoLine pd photoNoticeEn)))"
proof -
  have falsy: "assertPostJson req = None \<Longrightarrow>
      \<not> truthy (getProp (bodyOrEmpty req) (js ''profile'')) \<Longrightarrow>
      skinAnalysis numberOf generateContent e req =
        \<lparr>sent = \<lparr>status = 400, json = ErrorEnvelope (js ''Missing profile data.'')\<rparr>,
         envAfter = e, modelCalls = []\<rparr>"
    by (simp add: skinAnalysis_def Let_def)
  have goes: "assertPostJson req = None \<Longrightarrow>
      truthy (getProp (bodyOrEmpty req) (js ''profile'')) \<Longrightarrow> getGeminiClient e = Inr e' \<Longrightarrow>
      userPrompt (languageOf (bodyOrEmpty req)) (getProp (bodyOrEmpty req) (js ''profile''))
        (getProp (bodyOrEmpty req) (js ''photoData'')) = Some prompt \<Longrightarrow>
      modelCalls (skinAnalysis numberOf generateContent e req) =
        [TextPart (systemPrompt (languageOf (bodyOrEmpty req)) @ js ''\<newline>\<newline>'' @ prompt)
           # photoParts (getProp (bodyOrEmpty req) (js ''photoData''))]"
    by (simp add: skinAnalysis_def Let_def split: modelReply.splits)
  show ?thesis
    using falsy goes by (simp add: userPrompt_of_string)
qed

theorem skinAnalysis_profile_check_witness:
  "skinAnalysis id (\<lambda>ps. ModelText (js ''{}''))
     \<lparr>geminiClient = False, GEMINI_API_KEY = Some (js ''key'')\<rparr>
     \<lparr>httpMethod = js ''POST'', contentType = Some (js ''application/json''),
      body = JObj [(js ''profile'', JNum (js ''0''))]\<rparr> =
     \<lparr>sent = \<lparr>status = 400, json = ErrorEnvelope (js ''Missing profile data.'')\<rparr>,
      envAfter = \<lparr>geminiClient = False, GEMINI_API_KEY = Some (js ''key'')\<rparr>, modelCalls = []\<rparr> \<and>
   modelCalls (skinAnalysis id (\<lambda>ps. ModelText (js ''{}''))
     \<lparr>geminiClient = False, GEMINI_API_KEY = Some (js ''key'')\<rparr>
     \<lparr>httpMethod = js ''POST'', contentType = Some (js ''application/json''),
      body = JObj [(js ''profile'', JStr (js ''oily''))]\<rparr>) =
     [[TextPart (systemPromptEn @ js ''\<newline>\<newline>'' @
         userTemplateEn notSpecifiedEn noConcernsEn notSpecifiedEn notSpecifiedEn notSpecifiedEn [])]]"
proof -
  have g: "getGeminiClient \<lparr>geminiClient = False, GEMINI_API_KEY = Some (js ''key'')\<rparr> =
      Inr \<lparr>geminiClient = True, GEMINI_API_KEY = Some (js ''key'')\<rparr>"
    by (simp add: getGeminiClient_def)
  from skinAnalysis_profile_check
    [of "\<lparr>httpMethod = js ''POST'', contentType = Some (js ''application/json''),
          body = JObj [(js ''profile'', JNum (js ''0''))]\<rparr>"
      id "\<lambda>ps. ModelText (js ''{}'')"
      "\<lparr>geminiClient = False, GEMINI_API_KEY = Some (js ''key'')\<rparr>"]
  have a: "skinAnalysis id (\<lambda>ps. ModelText (js ''{}''))
     \<lparr>geminiClient = False, GEMINI_API_KEY = Some (js ''key'')\<rparr>
     \<lparr>httpMethod = js ''POST'', contentType = Some (js ''application/json''),
      body = JObj [(js ''profile'', JNum (js ''0''))]\<rparr> =
     \<lparr>sent = \<lparr>status = 400, json = ErrorEnvelope (js ''Missing profile data.'')\<rparr>,
      envAfter = \<lparr>geminiClient = False, GEMINI_API_KEY = Some (js ''key'')\<rparr>, modelCalls = []\<rparr>"
    by (simp add: assertPostJson_json bodyOrEmpty_def coalesce_def)
  from skinAnalysis_profile_check
    [of "\<lparr>httpMethod = js ''POST'', contentType = Some (js ''application/json''),
          body = JObj [(js ''profile'', JStr (js ''oily''))]\<rparr>"
      id "\<lambda>ps. ModelText (js ''{}'')"
      "\<lparr>geminiClient = False, GEMINI_API_KEY = Some (js ''key'')\<rparr>"
      "\<lparr>geminiClient = True, GEMINI_API_KEY = Some (js ''key'')\<rparr>"
      "userTemplateEn notSpecifiedEn noConcernsEn notSpecifiedEn notSpecifiedEn notSpecifiedEn []"]
  have b: "modelCalls (skinAnalysis id (\<lambda>ps. ModelText (js ''{}''))
     \<lparr>geminiClient = False, GEMINI_API_KEY = Some (js ''key'')\<rparr>
     \<lparr>httpMethod = js ''POST'', contentType = Some (js ''application/json''),
      body = JObj [(js ''profile'', JStr (js ''oily''))]\<rparr>) =
     [[TextPart (systemPromptEn @ js ''\<newline>\<newline>'' @
         userTemplateEn notSpecifiedEn noConcernsEn notSpecifiedEn notSpecifiedEn notSpecifiedEn [])]]"
    using g
    by (simp add: assertPostJson_json bodyOrEmpty_def coalesce_def languageOf_def
        userPrompt_of_string photoLine_def systemPrompt_def photoParts_def)
  from a b show ?thesis by simp
qed

section \<open>Properties of the check-in analysis\<close>

text \<open>
  C9. analyzeCheckInPhotos takes the first truthy photo of \<open>front\<close>, \<open>left_profile\<close>,
  \<open>right_profile\<close>, in that order (with \<open>front\<close> null, \<open>left_profile\<close> "X" and
  \<open>right_profile\<close> "Y" it takes "X"). With all three absent it fails with
  \<open>No photo available for analysis\<close> and sends no request. On an ok response with a
  JSON body that is not null, the photo taken went out as \<open>photoData\<close> and the result is
  \<open>{overall_score, summary, derived_features: {detected_concerns, ai_notes}}\<close> from
  \<open>overallScore\<close>, \<open>summary\<close> and \<open>concerns\<close>, with 75 and \<open>Analysis complete.\<close> where
  the upstream score and summary are absent.
\<close>

theorem analyzeCheckInPhotos_selection_and_mapping:
  "photoToAnalyze ph =
     (if front ph \<noteq> None \<and> front ph \<noteq> Some [] then front ph
      else if left_profile ph \<noteq> None \<and> left_profile ph \<noteq> Some [] then left_profile ph
      else right_profile ph) \<and>
   photoToAnalyze \<lparr>front = None, left_profile = Some (js ''X''), right_profile = Some (js ''Y'')\<rparr> =
     Some (js ''X'') \<and>
   (front (photos payload) = None \<and> left_profile (photos payload) = None \<and>
      right_profile (photos payload) = None \<longrightarrow>
    analyzeCheckInPhotos fetch payload =
      (Inl (ErrorThrown (js ''No photo available for analysis'')), [])) \<and>
   (photoToAnalyze (photos payload) = Some photo \<and> photo \<noteq> [] \<and>
      fetch (checkInRequest payload photo) = FetchResponse True st stText (Some data) \<and>
      \<not> nullish data \<longrightarrow>
    analyzeCheckInPhotos fetch payload =
      (Inr \<lparr>overall_score =
              (if nullish (getProp data (js ''overallScore'')) then JNum (js ''75'')
               else getProp data (js ''overallScore'')),
            summary =
              (if nullish (getProp data (js ''summary'')) then JStr (js ''Analysis complete.'')
               else getProp data (js ''summary'')),
            derived_features =
              \<lparr>detected_concerns =
                 (if nullish (getProp data (js ''concerns'')) then JArr []
                  else getProp data (js ''concerns'')),
               ai_notes =
                 (if nullish (getProp data (js ''summary'')) then JStr []
                  else getProp data (js ''summary''))\<rparr>\<rparr>,
       [checkInRequest payload photo]) \<and>
    getProp (checkInRequest payload photo) (js ''photoData'') = JStr photo)"
proof (intro conjI impI)
  show "photoToAnalyze ph =
     (if front ph \<noteq> None \<and> front ph \<noteq> Some [] then front ph
      else if left_profile ph \<noteq> None \<and> left_profile ph \<noteq> Some [] then left_profile ph
      else right_profile ph)"
    by (auto simp: photoToAnalyze_def orPhoto_def split: option.splits)
next
  show "photoToAnalyze \<lparr>front = None, left_profile = Some (js ''X''), right_profile = Some (js ''Y'')\<rparr> =
     Some (js ''X'')"
    by (simp add: photoToAnalyze_def orPhoto_def)
next
  assume "front (photos payload) = None \<and> left_profile (photos payload) = None \<and>
      right_profile (photos payload) = None"
  then show "analyzeCheckInPhotos fetch payload =
      (Inl (ErrorThrown (js ''No photo available for analysis'')), [])"
    by (simp add: analyzeCheckInPhotos_def photoToAnalyze_def orPhoto_def)
next
  assume a: "photoToAnalyze (photos payload) = Some photo \<and> photo \<noteq> [] \<and>
      fetch (checkInRequest payload photo) = FetchResponse True st stText (Some data) \<and>
      \<not> nullish data"
  then show "analyzeCheckInPhotos fetch payload =
      (Inr \<lparr>overall_score =
              (if nullish (getProp data (js ''overallScore'')) then JNum (js ''75'')
               else getProp data (js ''overallScore'')),
            summary =
              (if nullish (getProp data (js ''summary'')) then JStr (js ''Analysis complete.'')
               else getProp data (js ''summary'')),
            derived_features =
              \<lparr>detected_concerns =
                 (if nullish (getProp data (js ''concerns'')) then JArr []
                  else getProp data (js ''concerns'')),
               ai_notes =
                 (if nullish (getProp data (js ''summary'')) then JStr []
                  else getProp data (js ''summary''))\<rparr>\<rparr>,
       [checkInRequest payload photo])"
    by (simp add: analyzeCheckInPhotos_def coalesce_def)
next
  show "getProp (checkInRequest payload photo) (js ''photoData'') = JStr photo"
    by (simp add: checkInRequest_def)
qed

theorem analyzeCheckInPhotos_selection_and_mapping_witness:
  "analyzeCheckInPhotos (\<lambda>b. FetchResponse True 200 (js ''OK'') (Some (JObj [(js ''concerns'', JArr [])])))
     \<lparr>profile = JObj [], photos = \<lparr>front = None, left_profile = None, right_profile = None\<rparr>,
      language = js ''en''\<rparr> =
     (Inl (ErrorThrown (js ''No photo available for analysis'')), []) \<and>
   fst (analyzeCheckInPhotos (\<lambda>b. FetchResponse True 200 (js ''OK'') (Some (JObj [(js ''concerns'', JArr [])])))
     \<lparr>profile = JObj [],
      photos = \<lparr>front = None, left_profile = Some (js ''X''), right_profile = Some (js ''Y'')\<rparr>,
      language = js ''en''\<rparr>) =
     Inr \<lparr>overall_score = JNum (js ''75''), summary = JStr (js ''Analysis complete.''),
          derived_features = \<lparr>detected_concerns = JArr [], ai_notes = JStr []\<rparr>\<rparr>"
proof -
  have p: "photoToAnalyze \<lparr>front = None, left_profile = Some (js ''X''), right_profile = Some (js ''Y'')\<rparr> =
      Some (js ''X'')"
    by (simp add: photoToAnalyze_def orPhoto_def)
  from analyzeCheckInPhotos_selection_and_mapping
    [of _ "\<lparr>profile = JObj [], photos = \<lparr>front = None, left_profile = None, right_profile = None\<rparr>,
      language = js ''en''\<rparr>"
      "\<lambda>b. FetchResponse True 200 (js ''OK'') (Some (JObj [(js ''concerns'', JArr [])]))"]
  have a: "analyzeCheckInPhotos (\<lambda>b. FetchResponse True 200 (js ''OK'') (Some (JObj [(js ''concerns'', JArr [])])))
     \<lparr>profile = JObj [], photos = \<lparr>front = None, left_profile = None, right_profile = None\<rparr>,
      language = js ''en''\<rparr> =
     (Inl (ErrorThrown (js ''No photo available for analysis'')), [])"
    by simp
  from analyzeCheckInPhotos_selection_and_mapping
    [of _ "\<lparr>profile = JObj [],
      photos = \<lparr>front = None, left_profile = Some (js ''X''), right_profile = Some (js ''Y'')\<rparr>,
      language = js ''en''\<rparr>"
      "\<lambda>b. FetchResponse True 200 (js ''OK'') (Some (JObj [(js ''concerns'', JArr [])]))"
      "js ''X''" 200 "js ''OK''" "JObj [(js ''concerns'', JArr [])]"] p
  have b: "fst (analyzeCheckInPhotos (\<lambda>b. FetchResponse True 200 (js ''OK'') (Some (JObj [(js ''concerns'', JArr [])])))
     \<lparr>profile = JObj [],
      photos = \<lparr>front = None, left_profile = Some (js ''X''), right_profile = Some (js ''Y'')\<rparr>,
      language = js ''en''\<rparr>) =
     Inr \<lparr>overall_score = JNum (js ''75''), summary = JStr (js ''Analysis complete.''),
          derived_features = \<lparr>detected_concerns = JArr [], ai_notes = JStr []\<rparr>\<rparr>"
    by simp
  from a b show ?thesis by simp
qed

end
